theory Spec2Isabelle
  imports Complex_Main
begin

section \<open>Python values used by \<^verbatim>\<open>obd_reader.py\<close>\<close>

text \<open>
  Strings are lists of code points. Every code point the program prints into a reading
  is below 256, so one \<^typ>\<open>char\<close> stands for one Python character: the degree sign is
  U+00B0, the line feed is U+000A.
\<close>

definition degree_sign :: char where
  "degree_sign = CHR 0xB0"

definition newline :: char where
  "newline = CHR 0x0A"

subsection \<open>Floats\<close>

text \<open>
  A magnitude is a finite Python float (IEEE binary64), represented by the rational
  number it denotes. The result of an arithmetic operation is the exact result rounded
  to the nearest binary64 value, ties to even (\<open>fl64\<close>), and becomes an infinity when
  the rounded value leaves the binary64 range. Not-a-number and the sign of zero are
  outside the model: no finite magnitude produces them in \<^verbatim>\<open>c * 9/5 + 32\<close>.
\<close>

definition round_half_even :: "rat \<Rightarrow> int" where
  "round_half_even q =
     (let f = \<lfloor>q\<rfloor>; d = q - of_int f
      in if d < 1 / 2 then f
         else if 1 / 2 < d then f + 1
         else if even f then f else f + 1)"

function bit_length :: "int \<Rightarrow> int" where
  "bit_length n = (if n \<le> 0 then 0 else 1 + bit_length (n div 2))"
  by pat_completeness auto
termination
  by (relation "measure nat") auto

declare bit_length.simps [simp del]

definition pow2 :: "int \<Rightarrow> rat" where
  "pow2 k = (if 0 \<le> k then 2 ^ nat k else 1 / 2 ^ nat (- k))"

text \<open>The binary exponent \<open>\<lfloor>log\<^sub>2 q\<rfloor>\<close> of a positive rational.\<close>

definition floor_log2 :: "rat \<Rightarrow> int" where
  "floor_log2 q =
     (let (a, b) = quotient_of q;
          k = bit_length a - bit_length b
      in if pow2 k \<le> q then k else k - 1)"

datatype pyfloat = Finite rat | Infinity bool

text \<open>
  \<open>Infinity True\<close> is \<^verbatim>\<open>-inf\<close>. Below the exponent \<open>-1022\<close> the spacing of binary64
  values stays \<open>2\<^sup>-\<^sup>1\<^sup>0\<^sup>7\<^sup>4\<close> (subnormal numbers).
\<close>

definition fl64 :: "rat \<Rightarrow> pyfloat" where
  "fl64 q =
     (if q = 0 then Finite 0
      else let e = max (floor_log2 \<bar>q\<bar>) (- 1022);
               u = pow2 (e - 52);
               r = of_int (round_half_even (\<bar>q\<bar> / u)) * u
           in if pow2 1024 \<le> r then Infinity (q < 0)
              else Finite (if q < 0 then - r else r))"

text \<open>
  Float multiplication, division and addition with a positive finite constant as the
  right operand, the only uses the program makes of them.
\<close>

definition float_mul :: "pyfloat \<Rightarrow> rat \<Rightarrow> pyfloat" where
  "float_mul x k = (case x of Finite a \<Rightarrow> fl64 (a * k) | Infinity s \<Rightarrow> Infinity s)"

definition float_div :: "pyfloat \<Rightarrow> rat \<Rightarrow> pyfloat" where
  "float_div x k = (case x of Finite a \<Rightarrow> fl64 (a / k) | Infinity s \<Rightarrow> Infinity s)"

definition float_add :: "pyfloat \<Rightarrow> rat \<Rightarrow> pyfloat" where
  "float_add x k = (case x of Finite a \<Rightarrow> fl64 (a + k) | Infinity s \<Rightarrow> Infinity s)"

text \<open>\<^verbatim>\<open>magnitude * 9/5 + 32\<close>, evaluated left to right as Python does.\<close>

definition to_fahrenheit :: "rat \<Rightarrow> pyfloat" where
  "to_fahrenheit celsius = float_add (float_div (float_mul (Finite celsius) 9) 5) 32"

subsection \<open>The format specifications \<^verbatim>\<open>:.0f\<close> and \<^verbatim>\<open>:.1f\<close>\<close>

text \<open>
  CPython prints a float with \<open>n\<close> decimals by rounding its exact value to the nearest
  multiple of \<open>10\<^sup>-\<^sup>n\<close>, ties to even, and keeps the minus sign of a negative value
  that rounds to zero.
\<close>

definition digit_char :: "int \<Rightarrow> char" where
  "digit_char d = ''0123456789'' ! nat d"

function show_digits :: "int \<Rightarrow> string" where
  "show_digits n =
     (if n < 10 then [digit_char n] else show_digits (n div 10) @ [digit_char (n mod 10)])"
  by pat_completeness auto
termination
  by (relation "measure nat") auto

declare show_digits.simps [simp del]

definition zero_pad :: "nat \<Rightarrow> string \<Rightarrow> string" where
  "zero_pad n ds = replicate (n - length ds) (CHR ''0'') @ ds"

definition format_f :: "nat \<Rightarrow> rat \<Rightarrow> string" where
  "format_f n q =
     (let r = round_half_even (\<bar>q\<bar> * 10 ^ n)
      in (if q < 0 then ''-'' else '''') @ show_digits (r div 10 ^ n)
         @ (if n = 0 then '''' else ''.'' @ zero_pad n (show_digits (r mod 10 ^ n))))"

definition format_float :: "nat \<Rightarrow> pyfloat \<Rightarrow> string" where
  "format_float n x =
     (case x of
        Finite q \<Rightarrow> format_f n q
      | Infinity neg \<Rightarrow> (if neg then ''-inf'' else ''inf''))"

section \<open>The diagnostics library as seen by the program\<close>

datatype command =
  RPM | SPEED | COOLANT_TEMP | THROTTLE_POS | ENGINE_LOAD | INTAKE_TEMP | FUEL_LEVEL
  | FUEL_PRESSURE

text \<open>
  \<open>KeyboardInterrupt\<close> is not a subclass of \<open>Exception\<close>; \<open>Exception msg\<close> stands for any
  exception that is, with \<open>msg\<close> its \<^verbatim>\<open>str()\<close>.
\<close>

datatype exn = KeyboardInterrupt | Exception string

text \<open>
  A call of \<^verbatim>\<open>connection.query(cmd)\<close> returns a response whose \<^verbatim>\<open>value\<close> is \<open>None\<close>
  or carries a magnitude, or it raises.
\<close>

datatype reply = Answers "rat option" | Raises exn

text \<open>
  An object returned by \<^verbatim>\<open>obd.OBD(...)\<close>. \<open>is_connected\<close> is what \<^verbatim>\<open>is_connected()\<close>
  answers while the program decides whether the attempt succeeded.
\<close>

record conn =
  ident :: nat
  is_connected :: bool
  port_name :: string
  protocol_name :: string

datatype attempt = Fails string | Yields conn

text \<open>
  What the adapter does at each call of the constructor: \<open>port_attempt\<close> for
  \<^verbatim>\<open>obd.OBD('/dev/ttyACM0', timeout=30)\<close>, \<open>auto_attempt\<close> for the first call of
  \<^verbatim>\<open>obd.OBD()\<close> and \<open>auto_retry\<close> for a second one.
\<close>

record adapter =
  port_attempt :: attempt
  auto_attempt :: attempt
  auto_retry :: attempt

text \<open>The actions of the program that are visible from outside, in the order they happen.\<close>

datatype event =
    Print string
  | Clear_screen
  | Sleep rat
  | Open_port
  | Open_auto
  | Query command
  | Close nat
  | Set_running bool
  | Join rat
  | Start_thread
  | Show_error string
  | Destroy

datatype status = Still_running | Returned | Propagated exn

section \<open>Terminal mode\<close>

definition rpm_line :: "rat option \<Rightarrow> string" where
  "rpm_line v =
     (case v of
        Some m \<Rightarrow> ''Engine RPM:      '' @ format_f 0 m @ '' rpm''
      | None \<Rightarrow> ''Engine RPM:      No data'')"

definition speed_line :: "rat option \<Rightarrow> string" where
  "speed_line v =
     (case v of
        Some m \<Rightarrow> ''Vehicle Speed:   '' @ format_f 0 m @ '' mph''
      | None \<Rightarrow> ''Vehicle Speed:   No data'')"

definition coolant_line :: "rat option \<Rightarrow> string" where
  "coolant_line v =
     (case v of
        Some m \<Rightarrow>
          (let temp_f = to_fahrenheit m
           in ''Coolant Temp:    '' @ format_f 1 m @ [degree_sign] @ ''C ('' @ format_float 1 temp_f
              @ [degree_sign] @ ''F)'')
      | None \<Rightarrow> ''Coolant Temp:    No data'')"

definition throttle_line :: "rat option \<Rightarrow> string" where
  "throttle_line v =
     (case v of
        Some m \<Rightarrow> ''Throttle Pos:    '' @ format_f 1 m @ ''%''
      | None \<Rightarrow> ''Throttle Pos:    No data'')"

definition load_line :: "rat option \<Rightarrow> string" where
  "load_line v =
     (case v of
        Some m \<Rightarrow> ''Engine Load:     '' @ format_f 1 m @ ''%''
      | None \<Rightarrow> ''Engine Load:     No data'')"

definition iat_line :: "rat option \<Rightarrow> string" where
  "iat_line v =
     (case v of
        Some m \<Rightarrow>
          (let iat_f = to_fahrenheit m
           in ''Intake Air Temp: '' @ format_f 1 m @ [degree_sign] @ ''C ('' @ format_float 1 iat_f
              @ [degree_sign] @ ''F)'')
      | None \<Rightarrow> ''Intake Air Temp: No data'')"

definition fuel_line :: "rat option \<Rightarrow> string" where
  "fuel_line v =
     (case v of
        Some m \<Rightarrow> ''Fuel Level:      '' @ format_f 1 m @ ''%''
      | None \<Rightarrow> ''Fuel Level:      No data'')"

text \<open>
  One \<^verbatim>\<open>query\<close> followed by the \<^verbatim>\<open>print\<close> of its reading. An exception raised by the
  query leaves the block before anything is printed.
\<close>

definition read_and_print ::
  "(command \<Rightarrow> reply) \<Rightarrow> command \<Rightarrow> (rat option \<Rightarrow> string) \<Rightarrow> event list \<times> exn option"
where
  "read_and_print replies cmd line =
     (case replies cmd of
        Raises e \<Rightarrow> ([Query cmd], Some e)
      | Answers v \<Rightarrow> ([Query cmd, Print (line v)], None))"

text \<open>Statements in sequence: the first exception ends the sequence.\<close>

fun in_sequence :: "(event list \<times> exn option) list \<Rightarrow> event list \<times> exn option" where
  "in_sequence [] = ([], None)"
| "in_sequence ((evs, Some e) # rest) = (evs, Some e)"
| "in_sequence ((evs, None) # rest) = (let (evs', r) = in_sequence rest in (evs @ evs', r))"

text \<open>
  What one pass of the \<^verbatim>\<open>while True\<close> body meets: the reply to each query, and whether
  Ctrl+C arrives during \<^verbatim>\<open>time.sleep(1)\<close>. Interrupts are modelled where the program
  blocks once it is connected: at the queries and at the sleeps.
\<close>

record cycle_env =
  replies :: "command \<Rightarrow> reply"
  sleep_interrupted :: bool

definition sleep_step :: "rat \<Rightarrow> bool \<Rightarrow> event list \<times> exn option" where
  "sleep_step seconds interrupted =
     ([Sleep seconds], if interrupted then Some KeyboardInterrupt else None)"

definition terminal_cycle :: "cycle_env \<Rightarrow> event list \<times> exn option" where
  "terminal_cycle env =
     in_sequence
       [([Clear_screen, Print ''=== OBD-II LIVE DATA ==='', Print (replicate 25 (CHR ''-''))], None),
        read_and_print (replies env) RPM rpm_line,
        read_and_print (replies env) SPEED speed_line,
        read_and_print (replies env) COOLANT_TEMP coolant_line,
        read_and_print (replies env) THROTTLE_POS throttle_line,
        read_and_print (replies env) ENGINE_LOAD load_line,
        read_and_print (replies env) INTAKE_TEMP iat_line,
        read_and_print (replies env) FUEL_LEVEL fuel_line,
        ([Print (replicate 25 (CHR ''-'')), Print ''Press Ctrl+C to exit''], None),
        sleep_step 1 (sleep_interrupted env)]"

text \<open>
  \<^verbatim>\<open>while True\<close>: the loop has no exit of its own. \<open>polling_loop cycles i n\<close> runs at
  most \<open>n\<close> passes starting with pass \<open>i\<close>; the result \<open>None\<close> says that all \<open>n\<close> passes
  completed and the loop is still going, \<open>Some e\<close> that \<open>e\<close> left the loop.
\<close>

fun polling_loop :: "(nat \<Rightarrow> cycle_env) \<Rightarrow> nat \<Rightarrow> nat \<Rightarrow> event list \<times> exn option" where
  "polling_loop cycles i 0 = ([], None)"
| "polling_loop cycles i (Suc n) =
     (case terminal_cycle (cycles i) of
        (evs, Some e) \<Rightarrow> (evs, Some e)
      | (evs, None) \<Rightarrow> (let (evs', r) = polling_loop cycles (Suc i) n in (evs @ evs', r)))"

text \<open>Lines 28 to 35: the fixed port, any exception swallowed by the bare \<^verbatim>\<open>except\<close>.\<close>

definition try_port :: "adapter \<Rightarrow> event list \<times> conn option" where
  "try_port a =
     (case port_attempt a of
        Fails msg \<Rightarrow> ([Print ''Trying /dev/ttyACM0...'', Open_port], None)
      | Yields c \<Rightarrow>
          ([Print ''Trying /dev/ttyACM0...'', Open_port]
             @ (if is_connected c then [Print ''Connected via /dev/ttyACM0!''] else []),
           Some c))"

text \<open>Lines 37 to 40: auto-detection, outside any \<^verbatim>\<open>try\<close>.\<close>

definition try_auto :: "adapter \<Rightarrow> conn option \<Rightarrow> event list \<times> attempt" where
  "try_auto a connection =
     (let detect = ([Print ''Trying auto-detection...'', Open_auto], auto_attempt a)
      in case connection of
           None \<Rightarrow> detect
         | Some c \<Rightarrow> if \<not> is_connected c then detect else ([], Yields c))"

definition failure_report :: "event list" where
  "failure_report =
     [Print ''Failed to connect to vehicle!'',
      Print ''Check:'',
      Print ''- OBD-II adapter is plugged in'',
      Print ''- Vehicle ignition is ON'',
      Print ''- Adapter drivers are installed'']"

definition start_report :: "conn \<Rightarrow> event list" where
  "start_report c =
     [Print (''Connected to: '' @ port_name c),
      Print (''Protocol: '' @ protocol_name c),
      Print (newline # ''Starting data read... (Press Ctrl+C to exit)''),
      Sleep 2]"

text \<open>The handlers and the \<^verbatim>\<open>finally\<close> clause of lines 125 to 131.\<close>

definition leave_loop :: "conn \<Rightarrow> exn \<Rightarrow> event list" where
  "leave_loop c e =
     (case e of
        KeyboardInterrupt \<Rightarrow> [Print ([newline, newline] @ ''Exiting...'')]
      | Exception msg \<Rightarrow> [Print (newline # ''Error: '' @ msg)])
     @ [Close (ident c), Print ''Connection closed.'']"

text \<open>
  \<^verbatim>\<open>terminal_mode\<close>. \<open>start_interrupted\<close> says whether Ctrl+C arrives during
  \<^verbatim>\<open>time.sleep(2)\<close> of line 53, which is before the \<^verbatim>\<open>try\<close>.
\<close>

definition terminal_mode ::
  "adapter \<Rightarrow> bool \<Rightarrow> (nat \<Rightarrow> cycle_env) \<Rightarrow> nat \<Rightarrow> event list \<times> status"
where
  "terminal_mode a start_interrupted cycles n =
     (let (ev1, connection) = try_port a;
          (ev2, r) = try_auto a connection;
          evs = [Print ''Connecting to OBD-II port...''] @ ev1 @ ev2
      in case r of
           Fails msg \<Rightarrow> (evs, Propagated (Exception msg))
         | Yields c \<Rightarrow>
             if \<not> is_connected c then (evs @ failure_report, Returned)
             else if start_interrupted
             then (evs @ start_report c, Propagated KeyboardInterrupt)
             else (case polling_loop cycles 0 n of
                     (evl, None) \<Rightarrow> (evs @ start_report c @ evl, Still_running)
                   | (evl, Some e) \<Rightarrow> (evs @ start_report c @ evl @ leave_loop c e, Returned)))"

section \<open>Dashboard mode\<close>

datatype thread = Thread

record button =
  btn_text :: string
  btn_bg :: string
  btn_state :: string

text \<open>
  The fields of \<^verbatim>\<open>OBDReaderGUI\<close>. \<open>data_vars\<close> is the dictionary from parameter name to
  the text of its \<^verbatim>\<open>StringVar\<close>, in insertion order. \<open>after_queue\<close> holds the calls
  \<^verbatim>\<open>root.after(0, var.set, value)\<close> that the event loop has not run yet, oldest first.
\<close>

record reader_gui =
  connection :: "conn option"
  is_running :: bool
  data_thread :: "thread option"
  data_vars :: "(string \<times> string) list"
  status_label :: "string \<times> string"
  connect_btn :: button
  after_queue :: "(string \<times> string) list"

text \<open>\<^verbatim>\<open>d[k] = v\<close> on a dictionary: replace in place, or append a new key.\<close>

definition set_item :: "(string \<times> string) list \<Rightarrow> string \<Rightarrow> string \<Rightarrow> (string \<times> string) list" where
  "set_item d k v =
     (if k \<in> fst ` set d then map (\<lambda>(k', v'). (k', if k' = k then v else v')) d
      else d @ [(k, v)])"

text \<open>\<^verbatim>\<open>d[k].set(v)\<close> on the variable stored under an existing key.\<close>

definition set_var :: "(string \<times> string) list \<Rightarrow> string \<Rightarrow> string \<Rightarrow> (string \<times> string) list" where
  "set_var d k v = map (\<lambda>(k', v'). (k', if k' = k then v else v')) d"

definition parameters :: "(string \<times> string \<times> string) list" where
  "parameters =
     [(''Engine RPM'', ''rpm'', ''RPM''),
      (''Speed'', ''speed'', ''MPH''),
      (''Coolant Temp'', ''coolant_temp'', [degree_sign] @ ''C''),
      (''Throttle Position'', ''throttle_pos'', ''%''),
      (''Engine Load'', ''engine_load'', ''%''),
      (''Intake Air Temp'', ''intake_temp'', [degree_sign] @ ''C''),
      (''Fuel Level'', ''fuel_level'', ''%''),
      (''Fuel Pressure'', ''fuel_pressure'', ''kPa'')]"

definition create_data_displays :: "reader_gui \<Rightarrow> reader_gui" where
  "create_data_displays s =
     s\<lparr>data_vars :=
         foldl (\<lambda>d (display_name, var_name, unit). set_item d var_name ''--'') (data_vars s)
           parameters\<rparr>"

text \<open>\<^verbatim>\<open>__init__\<close> and \<^verbatim>\<open>setup_ui\<close>.\<close>

definition init_gui :: reader_gui where
  "init_gui =
     create_data_displays
       \<lparr>connection = None, is_running = False, data_thread = None, data_vars = [],
        status_label = (''Status: Disconnected'', ''red''),
        connect_btn = \<lparr>btn_text = ''Connect'', btn_bg = ''#4CAF50'', btn_state = ''normal''\<rparr>,
        after_queue = []\<rparr>"

text \<open>
  Lines 265 to 272. The result is \<open>Inr c\<close> with the object now in \<^verbatim>\<open>self.connection\<close>,
  or \<open>Inl msg\<close> when the last constructor call raised out of the inner handler.
\<close>

definition open_connection :: "adapter \<Rightarrow> reader_gui \<Rightarrow> event list \<times> reader_gui \<times> (string + conn)" where
  "open_connection a s =
     (case port_attempt a of
        Fails msg0 \<Rightarrow>
          (case auto_attempt a of
             Fails msg \<Rightarrow> ([Open_port, Open_auto], s, Inl msg)
           | Yields c \<Rightarrow> ([Open_port, Open_auto], s\<lparr>connection := Some c\<rparr>, Inr c))
      | Yields c1 \<Rightarrow>
          if is_connected c1 then ([Open_port], s\<lparr>connection := Some c1\<rparr>, Inr c1)
          else
            (case auto_attempt a of
               Yields c2 \<Rightarrow>
                 ([Open_port, Close (ident c1), Open_auto], s\<lparr>connection := Some c2\<rparr>, Inr c2)
             | Fails msg1 \<Rightarrow>
                 (case auto_retry a of
                    Yields c3 \<Rightarrow>
                      ([Open_port, Close (ident c1), Open_auto, Open_auto],
                       s\<lparr>connection := Some c3\<rparr>, Inr c3)
                  | Fails msg \<Rightarrow>
                      ([Open_port, Close (ident c1), Open_auto, Open_auto],
                       s\<lparr>connection := Some c1\<rparr>, Inl msg))))"

text \<open>\<^verbatim>\<open>connect\<close>. Of a message box only the title is kept.\<close>

definition connect :: "adapter \<Rightarrow> reader_gui \<Rightarrow> event list \<times> reader_gui" where
  "connect a s =
     (let s1 = s\<lparr>status_label := (''Status: Connecting...'', ''orange''),
                 connect_btn := (connect_btn s)\<lparr>btn_state := ''disabled''\<rparr>\<rparr>;
          (evs, s2, r) = open_connection a s1
      in case r of
           Inl msg \<Rightarrow>
             (evs @ [Show_error ''Error''],
              s2\<lparr>status_label := (''Status: Error'', ''red''),
                 connect_btn := (connect_btn s2)\<lparr>btn_state := ''normal''\<rparr>\<rparr>)
         | Inr c \<Rightarrow>
             if is_connected c
             then (evs @ [Start_thread],
                   s2\<lparr>status_label := (''Status: Connected ('' @ protocol_name c @ '')'', ''green''),
                      connect_btn :=
                        \<lparr>btn_text = ''Disconnect'', btn_bg = ''#f44336'', btn_state = ''normal''\<rparr>,
                      is_running := True,
                      data_thread := Some Thread\<rparr>)
             else (evs @ [Show_error ''Connection Error''],
                   s2\<lparr>status_label := (''Status: Connection Failed'', ''red''),
                      connect_btn := (connect_btn s2)\<lparr>btn_state := ''normal''\<rparr>\<rparr>))"

definition disconnect :: "reader_gui \<Rightarrow> event list \<times> reader_gui" where
  "disconnect s =
     ([Set_running False]
        @ (case data_thread s of Some t \<Rightarrow> [Join 2] | None \<Rightarrow> [])
        @ (case connection s of Some c \<Rightarrow> [Close (ident c)] | None \<Rightarrow> []),
      s\<lparr>is_running := False,
        connection := None,
        status_label := (''Status: Disconnected'', ''red''),
        connect_btn := \<lparr>btn_text = ''Connect'', btn_bg = ''#4CAF50'', btn_state = ''normal''\<rparr>,
        data_vars := map (\<lambda>(k, v). (k, ''--'')) (data_vars s)\<rparr>)"

definition on_closing :: "reader_gui \<Rightarrow> event list \<times> reader_gui" where
  "on_closing s =
     ([Set_running False]
        @ (case connection s of Some c \<Rightarrow> [Close (ident c)] | None \<Rightarrow> [])
        @ [Destroy],
      s\<lparr>is_running := False\<rparr>)"

subsection \<open>The polling thread\<close>

definition commands :: "(string \<times> command) list" where
  "commands =
     [(''rpm'', RPM),
      (''speed'', SPEED),
      (''coolant_temp'', COOLANT_TEMP),
      (''throttle_pos'', THROTTLE_POS),
      (''engine_load'', ENGINE_LOAD),
      (''intake_temp'', INTAKE_TEMP),
      (''fuel_level'', FUEL_LEVEL),
      (''fuel_pressure'', FUEL_PRESSURE)]"

text \<open>Lines 336 to 350.\<close>

definition format_value :: "string \<Rightarrow> rat option \<Rightarrow> string" where
  "format_value param v =
     (case v of
        Some m \<Rightarrow>
          if param \<in> set [''rpm''] then format_f 0 m
          else if param \<in> set [''speed''] then format_f 0 m
          else if param \<in> set [''coolant_temp'', ''intake_temp'']
          then (let celsius = m; fahrenheit = to_fahrenheit celsius
                in format_f 1 celsius @ [degree_sign] @ ''C'' @ [newline] @ ''(''
                   @ format_float 1 fahrenheit @ [degree_sign] @ ''F)'')
          else format_f 1 m
      | None \<Rightarrow> ''N/A'')"

text \<open>Lines 352 to 354: the update is handed to the event loop, not written.\<close>

definition publish :: "string \<Rightarrow> rat option \<Rightarrow> reader_gui \<Rightarrow> reader_gui" where
  "publish param v s =
     (if param \<in> fst ` set (data_vars s)
      then s\<lparr>after_queue := after_queue s @ [(param, format_value param v)]\<rparr>
      else s)"

text \<open>
  The \<^verbatim>\<open>for\<close> loop of lines 330 to 354 over the remaining items. With
  \<^verbatim>\<open>self.connection\<close> unset the call of \<^verbatim>\<open>query\<close> raises an \<open>AttributeError\<close>.
\<close>

definition attribute_error :: string where
  "attribute_error =
     [CHR 0x27] @ ''NoneType'' @ [CHR 0x27] @ '' object has no attribute '' @ [CHR 0x27]
       @ ''query'' @ [CHR 0x27]"

fun poll_params ::
  "(string \<times> command) list \<Rightarrow> (command \<Rightarrow> reply) \<Rightarrow> reader_gui \<Rightarrow> event list \<times> reader_gui \<times> exn option"
where
  "poll_params [] rep s = ([], s, None)"
| "poll_params ((param, cmd) # rest) rep s =
     (if \<not> is_running s then ([], s, None)
      else
        (case connection s of
           None \<Rightarrow> ([], s, Some (Exception attribute_error))
         | Some c \<Rightarrow>
             (case rep cmd of
                Raises e \<Rightarrow> ([Query cmd], s, Some e)
              | Answers v \<Rightarrow>
                  (let (evs, s', r) = poll_params rest rep (publish param v s)
                   in (Query cmd # evs, s', r)))))"

text \<open>
  The body of the \<^verbatim>\<open>while\<close> loop, lines 329 to 360. An \<open>Exception\<close> is handled here;
  anything else leaves the thread.
\<close>

definition poll_cycle :: "(command \<Rightarrow> reply) \<Rightarrow> reader_gui \<Rightarrow> event list \<times> reader_gui \<times> exn option" where
  "poll_cycle rep s =
     (case poll_params commands rep s of
        (evs, s', None) \<Rightarrow> (evs @ [Sleep (1 / 2)], s', None)
      | (evs, s', Some (Exception msg)) \<Rightarrow>
          (evs @ [Print (''Error reading data: '' @ msg), Sleep 1], s', None)
      | (evs, s', Some KeyboardInterrupt) \<Rightarrow> (evs, s', Some KeyboardInterrupt))"

text \<open>
  What pass \<open>i\<close> of the \<^verbatim>\<open>while\<close> loop meets: the answer of \<^verbatim>\<open>is_connected()\<close> in the loop
  condition and the replies to its queries.
\<close>

record poll_env =
  link_up :: bool
  answers :: "command \<Rightarrow> reply"

text \<open>
  \<open>read_data_loop envs i n s\<close> runs at most \<open>n\<close> passes of the thread's loop starting with
  pass \<open>i\<close>, with no other thread touching the object in between.
\<close>

fun read_data_loop ::
  "(nat \<Rightarrow> poll_env) \<Rightarrow> nat \<Rightarrow> nat \<Rightarrow> reader_gui \<Rightarrow> event list \<times> reader_gui \<times> status"
where
  "read_data_loop envs i 0 s = ([], s, Still_running)"
| "read_data_loop envs i (Suc n) s =
     (if is_running s \<and> connection s \<noteq> None \<and> link_up (envs i)
      then
        (case poll_cycle (answers (envs i)) s of
           (evs, s', Some e) \<Rightarrow> (evs, s', Propagated e)
         | (evs, s', None) \<Rightarrow>
             (let (evs', s'', st) = read_data_loop envs (Suc i) n s' in (evs @ evs', s'', st)))
      else ([], s, Returned))"

subsection \<open>The event loop\<close>

text \<open>The event loop runs the oldest pending call of \<^verbatim>\<open>var.set(value)\<close>.\<close>

definition run_callback :: "reader_gui \<Rightarrow> reader_gui" where
  "run_callback s =
     (case after_queue s of
        [] \<Rightarrow> s
      | (k, v) # q \<Rightarrow> s\<lparr>data_vars := set_var (data_vars s) k v, after_queue := q\<rparr>)"

text \<open>All pending calls, oldest first.\<close>

definition run_pending :: "reader_gui \<Rightarrow> reader_gui" where
  "run_pending s =
     s\<lparr>data_vars := foldl (\<lambda>d (k, v). set_var d k v) (data_vars s) (after_queue s),
       after_queue := []\<rparr>"

section \<open>Mode selection\<close>

record args =
  terminal :: bool
  gui :: bool

datatype mode = Terminal_mode | Gui_mode

text \<open>The truth value Python gives to the result of \<^verbatim>\<open>os.environ.get('DISPLAY')\<close>.\<close>

definition truthy :: "string option \<Rightarrow> bool" where
  "truthy v = (case v of None \<Rightarrow> False | Some x \<Rightarrow> x \<noteq> [])"

text \<open>
  \<^verbatim>\<open>main\<close>: the lines it prints and the mode function it calls, from the parsed flags,
  \<^verbatim>\<open>GUI_AVAILABLE\<close> and the value of \<^verbatim>\<open>DISPLAY\<close> in the environment.
\<close>

definition main :: "args \<Rightarrow> bool \<Rightarrow> string option \<Rightarrow> string list \<times> mode" where
  "main a GUI_AVAILABLE display =
     (if terminal a then ([], Terminal_mode)
      else if gui a then ([], Gui_mode)
      else if GUI_AVAILABLE \<and> truthy display
      then ([''Display detected. Starting GUI mode...'', ''Use --terminal to force terminal mode''],
            Gui_mode)
      else ([''No display or GUI unavailable. Starting terminal mode...'',
             ''Use --gui to force GUI mode''],
            Terminal_mode))"

text \<open>
  \<^verbatim>\<open>gui_mode\<close>: the lines it prints and whether the dashboard window is started.
\<close>

definition gui_mode :: "bool \<Rightarrow> string list \<times> bool" where
  "gui_mode GUI_AVAILABLE =
     (if \<not> GUI_AVAILABLE
      then ([''Error: GUI libraries not available.'',
             ''Install tkinter or run in terminal mode with: --terminal''],
            False)
      else ([], True))"

section \<open>Notions used in the properties\<close>

definition is_answer :: "reply \<Rightarrow> bool" where
  "is_answer r = (case r of Answers v \<Rightarrow> True | Raises e \<Rightarrow> False)"

text \<open>The \<^verbatim>\<open>value\<close> of a response; only used of replies that are answers.\<close>

definition reading :: "reply \<Rightarrow> rat option" where
  "reading r = (case r of Answers v \<Rightarrow> v | Raises e \<Rightarrow> None)"

text \<open>The commands terminal mode sends, in its order.\<close>

definition terminal_commands :: "command list" where
  "terminal_commands =
     [RPM, SPEED, COOLANT_TEMP, THROTTLE_POS, ENGINE_LOAD, INTAKE_TEMP, FUEL_LEVEL]"

text \<open>A pass in which no query of terminal mode raises and no interrupt arrives.\<close>

definition quiet :: "cycle_env \<Rightarrow> bool" where
  "quiet env =
     (list_all (\<lambda>cmd. is_answer (replies env cmd)) terminal_commands \<and> \<not> sleep_interrupted env)"

text \<open>The report of a quiet pass, written out: seven readings between the two rules.\<close>

definition full_report :: "cycle_env \<Rightarrow> event list" where
  "full_report env =
     [Clear_screen,
      Print ''=== OBD-II LIVE DATA ==='',
      Print ''-------------------------'',
      Query RPM, Print (rpm_line (reading (replies env RPM))),
      Query SPEED, Print (speed_line (reading (replies env SPEED))),
      Query COOLANT_TEMP, Print (coolant_line (reading (replies env COOLANT_TEMP))),
      Query THROTTLE_POS, Print (throttle_line (reading (replies env THROTTLE_POS))),
      Query ENGINE_LOAD, Print (load_line (reading (replies env ENGINE_LOAD))),
      Query INTAKE_TEMP, Print (iat_line (reading (replies env INTAKE_TEMP))),
      Query FUEL_LEVEL, Print (fuel_line (reading (replies env FUEL_LEVEL))),
      Print ''-------------------------'',
      Print ''Press Ctrl+C to exit'',
      Sleep 1]"

text \<open>The updates the polling thread hands over for the items \<open>xs\<close>.\<close>

definition published :: "(command \<Rightarrow> reply) \<Rightarrow> (string \<times> command) list \<Rightarrow> (string \<times> string) list" where
  "published rep xs = map (\<lambda>(param, cmd). (param, format_value param (reading (rep cmd)))) xs"

text \<open>
  The texts a cell may show: the placeholder, the absence marker, or what the formatter
  makes of a magnitude.
\<close>

definition display_text :: "string \<Rightarrow> bool" where
  "display_text x = (x = ''--'' \<or> x = ''N/A'' \<or> (\<exists>param m. x = format_value param (Some m)))"


section \<open>Sample inputs\<close>

text \<open>An adapter on the fixed port that answers, with the protocol of the spec's scenario.\<close>

definition port_conn :: conn where
  "port_conn =
     \<lparr>ident = 1, is_connected = True, port_name = ''/dev/ttyACM0'',
      protocol_name = ''ISO 15765-4''\<rparr>"

definition good_adapter :: adapter where
  "good_adapter =
     \<lparr>port_attempt = Yields port_conn, auto_attempt = Fails ''not called'',
      auto_retry = Fails ''not called''\<rparr>"

text \<open>
  A dashboard that is connected and has shown an RPM of 850 and a missing speed.
\<close>

definition busy_gui :: reader_gui where
  "busy_gui =
     run_pending
       (publish ''speed'' None (publish ''rpm'' (Some 850) (snd (connect good_adapter init_gui))))"

text \<open>
  An adapter that is not there: both constructor calls return an object that is not
  connected.
\<close>

definition dead_port_conn :: conn where
  "dead_port_conn = \<lparr>ident = 1, is_connected = False, port_name = '''', protocol_name = ''''\<rparr>"

definition dead_auto_conn :: conn where
  "dead_auto_conn = \<lparr>ident = 2, is_connected = False, port_name = '''', protocol_name = ''''\<rparr>"

definition dead_adapter :: adapter where
  "dead_adapter =
     \<lparr>port_attempt = Yields dead_port_conn, auto_attempt = Yields dead_auto_conn,
      auto_retry = Fails ''not called''\<rparr>"

text \<open>
  The scenario of the spec: RPM 0, no speed, coolant at 90.0; nothing else answers with
  a value.
\<close>

definition scenario_replies :: "command \<Rightarrow> reply" where
  "scenario_replies cmd =
     (case cmd of
        RPM \<Rightarrow> Answers (Some 0)
      | COOLANT_TEMP \<Rightarrow> Answers (Some 90)
      | _ \<Rightarrow> Answers None)"

definition scenario_cycle :: cycle_env where
  "scenario_cycle = \<lparr>replies = scenario_replies, sleep_interrupted = False\<rparr>"

text \<open>The query of the speed raises; every other query answers with a value.\<close>

definition failing_replies :: "command \<Rightarrow> reply" where
  "failing_replies cmd =
     (case cmd of
        RPM \<Rightarrow> Answers (Some 850)
      | SPEED \<Rightarrow> Raises (Exception ''read failed'')
      | _ \<Rightarrow> Answers (Some 50))"

definition failing_cycle :: cycle_env where
  "failing_cycle = \<lparr>replies = failing_replies, sleep_interrupted = False\<rparr>"

text \<open>A dashboard that has just connected.\<close>

definition connected_gui :: reader_gui where
  "connected_gui = snd (connect good_adapter init_gui)"

text \<open>The query of the coolant temperature raises; the two before it answer.\<close>

definition coolant_failing_replies :: "command \<Rightarrow> reply" where
  "coolant_failing_replies cmd =
     (case cmd of
        RPM \<Rightarrow> Answers (Some 900)
      | SPEED \<Rightarrow> Answers (Some 30)
      | COOLANT_TEMP \<Rightarrow> Raises (Exception ''read failed'')
      | _ \<Rightarrow> Answers (Some 50))"

text \<open>The binary64 value just below one quarter.\<close>

definition below_quarter :: rat where
  "below_quarter = 1 / 4 - 1 / 2 ^ 55"

section \<open>Properties\<close>

lemma data_vars_busy_gui:
  "data_vars busy_gui =
     [(''rpm'', ''850''), (''speed'', ''N/A''), (''coolant_temp'', ''--''),
      (''throttle_pos'', ''--''), (''engine_load'', ''--''), (''intake_temp'', ''--''),
      (''fuel_level'', ''--''), (''fuel_pressure'', ''--'')]"
  by code_simp

lemma connection_busy_gui: "connection busy_gui = Some port_conn"
  by code_simp

lemma data_thread_busy_gui: "data_thread busy_gui = Some Thread"
  by code_simp

subsection \<open>Disconnecting\<close>

text \<open>
  C6. When \<open>disconnect\<close> has completed, every entry of the display dictionary holds the
  placeholder \<open>--\<close>, and the dictionary still has the same keys in the same order, so this
  covers all eight cells. (An update that is still pending in the event loop at that
  moment is not an entry of the dictionary; \<open>disconnect\<close> leaves the queue as it is.)
\<close>

theorem C6_disconnect_resets_display:
  "(\<forall>(k, v) \<in> set (data_vars (snd (disconnect s))). v = ''--'')
   \<and> map fst (data_vars (snd (disconnect s))) = map fst (data_vars s)"
  by (auto simp: disconnect_def split_def comp_def)

theorem C6_disconnect_resets_display_witness:
  "(''rpm'', ''850'') \<in> set (data_vars busy_gui)
   \<and> (''rpm'', ''--'') \<in> set (data_vars (snd (disconnect busy_gui)))
   \<and> map snd (data_vars (snd (disconnect busy_gui))) = replicate 8 ''--''
   \<and> map fst (data_vars (snd (disconnect busy_gui))) =
       [''rpm'', ''speed'', ''coolant_temp'', ''throttle_pos'', ''engine_load'', ''intake_temp'',
        ''fuel_level'', ''fuel_pressure'']"
proof -
  have "(''rpm'', ''--'') \<in> set (data_vars (snd (disconnect busy_gui)))"
    by (simp add: disconnect_def data_vars_busy_gui)
  moreover have "map snd (data_vars (snd (disconnect busy_gui))) = replicate 8 ''--''"
    by (simp add: disconnect_def data_vars_busy_gui eval_nat_numeral)
  ultimately show ?thesis
    using C6_disconnect_resets_display [of busy_gui] by (simp add: data_vars_busy_gui)
qed

text \<open>
  C7. \<open>disconnect\<close> has no statement that raises and is a total function of the object.
  After one call and after two calls in a row \<^verbatim>\<open>self.connection\<close> is \<open>None\<close>; the second
  call leaves the object as the first one left it, and closes nothing: it only clears the
  flag again and joins the thread again when there is one.
\<close>

theorem C7_disconnect_idempotent:
  "connection (snd (disconnect s)) = None
   \<and> connection (snd (disconnect (snd (disconnect s)))) = None
   \<and> snd (disconnect (snd (disconnect s))) = snd (disconnect s)
   \<and> fst (disconnect (snd (disconnect s))) =
       Set_running False # (case data_thread s of Some t \<Rightarrow> [Join 2] | None \<Rightarrow> [])"
  by (simp add: disconnect_def split_def comp_def)

subsection \<open>Mode selection\<close>

text \<open>
  C9, as stated, fails: with no flag, the toolkit available and \<^verbatim>\<open>DISPLAY\<close> present in
  the environment but empty, \<open>main\<close> starts terminal mode.
\<close>

theorem C9_counterexample:
  "Some '''' \<noteq> (None :: string option)
   \<and> main \<lparr>terminal = False, gui = False\<rparr> True (Some '''')
       = ([''No display or GUI unavailable. Starting terminal mode...'',
           ''Use --gui to force GUI mode''], Terminal_mode)"
  by (simp add: main_def truthy_def)

text \<open>
  C9, amended. \<^verbatim>\<open>--terminal\<close> always selects terminal mode; otherwise \<^verbatim>\<open>--gui\<close> selects
  dashboard mode; with neither flag, dashboard mode is selected exactly when the toolkit
  is available and \<^verbatim>\<open>DISPLAY\<close> is set to a non-empty value. \<open>gui_mode\<close> starts the
  dashboard when the toolkit is available and otherwise prints an error and returns. No
  flag, no \<^verbatim>\<open>DISPLAY\<close> and an available toolkit select terminal mode.
\<close>

theorem C9_mode_selection:
  "snd (main a GUI_AVAILABLE display) =
     (if terminal a then Terminal_mode
      else if gui a then Gui_mode
      else if GUI_AVAILABLE \<and> display \<noteq> None \<and> display \<noteq> Some '''' then Gui_mode
      else Terminal_mode)
   \<and> gui_mode True = ([], True)
   \<and> gui_mode False =
       ([''Error: GUI libraries not available.'',
         ''Install tkinter or run in terminal mode with: --terminal''], False)
   \<and> snd (main \<lparr>terminal = False, gui = False\<rparr> True None) = Terminal_mode"
  by (cases display) (simp_all add: main_def truthy_def gui_mode_def)

subsection \<open>Closing the session\<close>

text \<open>
  C3. \<open>disconnect\<close> clears the run flag, joins the polling thread for at most two seconds
  and only then closes the session. \<open>on_closing\<close> does not: on a connected dashboard with
  a polling thread it clears the flag and closes the session at once, with no join in
  between.
\<close>

theorem C3_on_closing_does_not_join:
  "data_thread busy_gui = Some Thread
   \<and> connection busy_gui = Some port_conn
   \<and> fst (disconnect busy_gui) = [Set_running False, Join 2, Close (ident port_conn)]
   \<and> fst (on_closing busy_gui) = [Set_running False, Close (ident port_conn), Destroy]"
  by (simp add: on_closing_def disconnect_def connection_busy_gui data_thread_busy_gui)

text \<open>
  C4. When neither constructor call yields a connected object, \<open>terminal_mode\<close> prints
  its failure report and returns: it has created two connection objects and closed none.
  \<open>connect\<close>, on the same adapter, closes the first object before it tries
  auto-detection. And when Ctrl+C arrives during the two seconds terminal mode sleeps
  before its loop, the interrupt leaves \<open>terminal_mode\<close> with the connected session
  still open.
\<close>

theorem C4_terminal_failure_closes_nothing:
  "terminal_mode dead_adapter start_interrupted cycles n =
     ([Print ''Connecting to OBD-II port...'',
       Print ''Trying /dev/ttyACM0...'', Open_port,
       Print ''Trying auto-detection...'', Open_auto,
       Print ''Failed to connect to vehicle!'',
       Print ''Check:'',
       Print ''- OBD-II adapter is plugged in'',
       Print ''- Vehicle ignition is ON'',
       Print ''- Adapter drivers are installed''], Returned)
   \<and> fst (connect dead_adapter init_gui) =
       [Open_port, Close (ident dead_port_conn), Open_auto, Show_error ''Connection Error'']
   \<and> terminal_mode good_adapter True cycles n =
       ([Print ''Connecting to OBD-II port...'',
         Print ''Trying /dev/ttyACM0...'', Open_port,
         Print ''Connected via /dev/ttyACM0!'',
         Print ''Connected to: /dev/ttyACM0'',
         Print ''Protocol: ISO 15765-4'',
         Print (newline # ''Starting data read... (Press Ctrl+C to exit)''),
         Sleep 2], Propagated KeyboardInterrupt)"
  by (simp add: terminal_mode_def try_port_def try_auto_def dead_adapter_def dead_port_conn_def
      dead_auto_conn_def failure_report_def connect_def open_connection_def good_adapter_def
      port_conn_def start_report_def)

subsection \<open>Temperatures\<close>

lemmas fl64_eval =
  fl64_def floor_log2_def pow2_def round_half_even_def bit_length.simps Let_def

lemma fl64_180: "fl64 180 = Finite 180"
  by (simp add: fl64_eval)

lemma fl64_36: "fl64 36 = Finite 36"
  by (simp add: fl64_eval)

lemma fl64_68: "fl64 68 = Finite 68"
  by (simp add: fl64_eval)

lemma to_fahrenheit_20: "to_fahrenheit 20 = Finite 68"
  by (simp add: to_fahrenheit_def float_mul_def float_div_def float_add_def fl64_180 fl64_36
      fl64_68)

lemma round_half_even_close: "\<bar>of_int (round_half_even x) - x\<bar> \<le> 1 / 2"
proof -
  have "of_int \<lfloor>x\<rfloor> \<le> x" "x < of_int \<lfloor>x\<rfloor> + 1"
    by linarith+
  then show ?thesis
    unfolding round_half_even_def Let_def by (auto simp: abs_le_iff)
qed

lemma format_one_decimal:
  "format_f 1 q =
     (if q < 0 then ''-'' else '''') @ show_digits (round_half_even (\<bar>q\<bar> * 10) div 10)
       @ ''.'' @ [digit_char (round_half_even (\<bar>q\<bar> * 10) mod 10)]"
proof -
  have "show_digits (round_half_even (\<bar>q\<bar> * 10) mod 10) =
      [digit_char (round_half_even (\<bar>q\<bar> * 10) mod 10)]"
    by (subst show_digits.simps) simp
  then show ?thesis
    by (simp add: format_f_def zero_pad_def Let_def)
qed

lemma format_20: "format_f 1 20 = ''20.0''"
  by code_simp

lemma format_68: "format_f 1 68 = ''68.0''"
  by code_simp

lemma coolant_line_20:
  "coolant_line (Some 20) =
     ''Coolant Temp:    20.0'' @ [degree_sign] @ ''C (68.0'' @ [degree_sign] @ ''F)''"
  by (simp add: coolant_line_def to_fahrenheit_20 format_float_def format_20 format_68
      del: One_nat_def)

lemma iat_line_20:
  "iat_line (Some 20) =
     ''Intake Air Temp: 20.0'' @ [degree_sign] @ ''C (68.0'' @ [degree_sign] @ ''F)''"
  by (simp add: iat_line_def to_fahrenheit_20 format_float_def format_20 format_68
      del: One_nat_def)

lemma format_value_coolant_20:
  "format_value ''coolant_temp'' (Some 20) =
     ''20.0'' @ [degree_sign] @ ''C'' @ [newline] @ ''(68.0'' @ [degree_sign] @ ''F)''"
  by (simp add: format_value_def to_fahrenheit_20 format_float_def format_20 format_68
      del: One_nat_def)

lemma format_value_intake_20:
  "format_value ''intake_temp'' (Some 20) =
     ''20.0'' @ [degree_sign] @ ''C'' @ [newline] @ ''(68.0'' @ [degree_sign] @ ''F)''"
  by (simp add: format_value_def to_fahrenheit_20 format_float_def format_20 format_68
      del: One_nat_def)

lemma pow2_powi: "pow2 k = 2 powi k"
  by (simp add: pow2_def power_int_def inverse_eq_divide power_one_over)

lemma pow2_pos: "0 < pow2 k"
  by (simp add: pow2_powi)

lemma pow2_add: "pow2 (i + j) = pow2 i * pow2 j"
  by (simp add: pow2_powi power_int_add)

lemma pow2_diff: "pow2 (i - j) = pow2 i / pow2 j"
  by (simp add: pow2_powi power_int_diff)

lemma pow2_nat: "0 \<le> k \<Longrightarrow> pow2 k = 2 ^ nat k"
  by (simp add: pow2_def)

lemma bit_length_bounds:
  "0 < n \<Longrightarrow> 1 \<le> bit_length n \<and> 2 ^ nat (bit_length n - 1) \<le> n \<and> n < 2 ^ nat (bit_length n)"
proof (induction n rule: bit_length.induct)
  case (1 n)
  show ?case
  proof (cases "n = 1")
    case True
    have "bit_length 1 = 1"
      by (simp add: bit_length.simps [of 1] bit_length.simps [of 0])
    with True show ?thesis by simp
  next
    case False
    with "1.prems" have half: "0 < n div 2" by simp
    from "1.IH" [OF _ half] "1.prems"
    have ih: "1 \<le> bit_length (n div 2)" "2 ^ nat (bit_length (n div 2) - 1) \<le> n div 2"
      "n div 2 < 2 ^ nat (bit_length (n div 2))"
      by simp_all
    have bl: "bit_length n = 1 + bit_length (n div 2)"
      using "1.prems" by (simp add: bit_length.simps [of n])
    have e: "nat (bit_length n - 1) = Suc (nat (bit_length (n div 2) - 1))"
      "nat (bit_length n) = Suc (nat (bit_length (n div 2)))"
      using bl ih(1) by simp_all
    have "2 * 2 ^ nat (bit_length (n div 2) - 1) \<le> 2 * (n div 2)"
      using ih(2) by simp
    also have "\<dots> \<le> n" by simp
    finally have lower: "2 ^ nat (bit_length n - 1) \<le> n"
      using e(1) by simp
    have "n < 2 * (n div 2) + 2" by simp
    also have "\<dots> \<le> 2 * 2 ^ nat (bit_length (n div 2))"
      using ih(3) by simp
    finally have upper: "n < 2 ^ nat (bit_length n)"
      using e(2) by simp
    from bl ih(1) lower upper show ?thesis by simp
  qed
qed

lemma floor_log2_lower:
  assumes "0 < q"
  shows "pow2 (floor_log2 q) \<le> q"
proof -
  obtain a b where ab: "quotient_of q = (a, b)"
    by (cases "quotient_of q")
  have b: "0 < b"
    using ab by (rule quotient_of_denom_pos)
  have q: "q = of_int a / of_int b"
    using ab by (rule quotient_of_div)
  have a: "0 < a"
    using assms q b by (simp add: zero_less_divide_iff)
  let ?k = "bit_length a - bit_length b"
  show ?thesis
  proof (cases "pow2 ?k \<le> q")
    case True
    then show ?thesis
      using ab by (simp add: floor_log2_def)
  next
    case False
    from bit_length_bounds [OF a] have la: "1 \<le> bit_length a" "2 ^ nat (bit_length a - 1) \<le> a"
      by simp_all
    from bit_length_bounds [OF b] have lb: "1 \<le> bit_length b" "b < 2 ^ nat (bit_length b)"
      by simp_all
    have "pow2 (?k - 1) = pow2 (bit_length a - 1) / pow2 (bit_length b)"
      using pow2_diff [of "bit_length a - 1" "bit_length b"] by (simp add: algebra_simps)
    also have "\<dots> = 2 ^ nat (bit_length a - 1) / 2 ^ nat (bit_length b)"
      using la(1) lb(1) by (simp add: pow2_nat)
    also have "\<dots> \<le> of_int a / of_int b"
    proof -
      have 1: "(2::rat) ^ nat (bit_length a - 1) \<le> of_int a"
        using la(2) by (metis of_int_le_iff of_int_numeral of_int_power)
      have 2: "of_int b \<le> (2::rat) ^ nat (bit_length b)"
        using lb(2) by (metis less_imp_le of_int_le_iff of_int_numeral of_int_power)
      have "(2::rat) ^ nat (bit_length a - 1) / 2 ^ nat (bit_length b)
          \<le> of_int a / 2 ^ nat (bit_length b)"
        using 1 by (simp add: divide_right_mono)
      also have "\<dots> \<le> of_int a / of_int b"
        using 2 a b by (simp add: frac_le)
      finally show ?thesis .
    qed
    finally have "pow2 (?k - 1) \<le> q"
      using q by simp
    with False show ?thesis
      using ab by (simp add: floor_log2_def)
  qed
qed


lemma fl64_error:
  assumes "\<bar>q\<bar> \<le> 2 ^ 1000"
  shows "\<exists>y. fl64 q = Finite y \<and> \<bar>y - q\<bar> \<le> \<bar>q\<bar> / 2 ^ 53 + 1 / 2 ^ 1075"
proof (cases "q = 0")
  case True
  then show ?thesis by (simp add: fl64_def)
next
  case False
  define e where "e = max (floor_log2 \<bar>q\<bar>) (- 1022)"
  define u where "u = pow2 (e - 52)"
  define r :: rat where "r = of_int (round_half_even (\<bar>q\<bar> / u)) * u"
  have u_pos: "0 < u"
    by (simp add: u_def pow2_pos)
  have "\<bar>of_int (round_half_even (\<bar>q\<bar> / u)) - \<bar>q\<bar> / u\<bar> * u \<le> 1 / 2 * u"
    using round_half_even_close [of "\<bar>q\<bar> / u"] u_pos by (intro mult_right_mono) simp_all
  moreover have "\<bar>of_int (round_half_even (\<bar>q\<bar> / u)) - \<bar>q\<bar> / u\<bar> * u = \<bar>r - \<bar>q\<bar>\<bar>"
  proof -
    have "r - \<bar>q\<bar> = (of_int (round_half_even (\<bar>q\<bar> / u)) - \<bar>q\<bar> / u) * u"
      using u_pos by (simp add: r_def algebra_simps)
    then show ?thesis
      using u_pos by (simp add: abs_mult)
  qed
  ultimately have close: "\<bar>r - \<bar>q\<bar>\<bar> \<le> u / 2"
    by simp
  have u_bound: "u / 2 \<le> \<bar>q\<bar> / 2 ^ 53 + 1 / 2 ^ 1075"
  proof (cases "- 1022 \<le> floor_log2 \<bar>q\<bar>")
    case True
    then have "u = pow2 (floor_log2 \<bar>q\<bar>) / pow2 52"
      by (simp add: u_def e_def pow2_diff max_def)
    also have "\<dots> \<le> \<bar>q\<bar> / pow2 52"
      using floor_log2_lower [of "\<bar>q\<bar>"] False pow2_pos [of 52] by (simp add: divide_right_mono)
    finally have "u \<le> \<bar>q\<bar> / 2 ^ 52"
      by (simp add: pow2_def)
    then show ?thesis by simp
  next
    case False
    then have "u = pow2 (- 1074)"
      by (simp add: u_def e_def max_def)
    then have "u / 2 = 1 / 2 ^ 1075"
      by (simp add: pow2_def)
    then show ?thesis by simp
  qed
  have "r \<le> \<bar>q\<bar> + u / 2"
    using close by linarith
  also have "\<dots> \<le> 2 ^ 1000 + (2 ^ 1000 / 2 ^ 53 + 1 / 2 ^ 1075)"
    using u_bound assms by (intro add_mono order_trans [OF u_bound]) (simp_all add: divide_right_mono)
  also have "\<dots> < pow2 1024"
    by (simp add: pow2_def)
  finally have finite: "\<not> pow2 1024 \<le> r"
    by simp
  have "fl64 q = Finite (if q < 0 then - r else r)"
    using False finite by (simp add: fl64_def Let_def e_def u_def r_def)
  moreover have "\<bar>(if q < 0 then - r else r) - q\<bar> = \<bar>r - \<bar>q\<bar>\<bar>"
    by (simp add: abs_if)
  ultimately show ?thesis
    using close u_bound by auto
qed

lemma fl64_error_coarse:
  assumes "\<bar>q\<bar> \<le> 10 ^ 8"
  shows "\<exists>y. fl64 q = Finite y \<and> \<bar>y - q\<bar> \<le> \<bar>q\<bar> / 2 ^ 53 + 1 / 2 ^ 60"
proof -
  have "\<bar>q\<bar> \<le> 2 ^ 1000"
    using assms by (rule order_trans) simp
  from fl64_error [OF this] obtain y where "fl64 q = Finite y"
    "\<bar>y - q\<bar> \<le> \<bar>q\<bar> / 2 ^ 53 + 1 / 2 ^ 1075"
    by blast
  moreover have "(1::rat) / 2 ^ 1075 \<le> 1 / 2 ^ 60"
    by simp
  ultimately show ?thesis
    by (intro exI [of _ y]) linarith
qed

lemma error_sum:
  fixes D d1 d2 d3 C A B :: rat
  assumes "D \<le> d1 + d2 + d3 / 5"
    and "d3 \<le> 9 * C / 9007199254740992 + 1 / 1152921504606846976"
    and "d2 \<le> A / 5 / 9007199254740992 + 1 / 1152921504606846976"
    and "d1 \<le> (B + 32) / 9007199254740992 + 1 / 1152921504606846976"
    and "A \<le> 10 * C + 1" and "B \<le> 3 * C + 1" and "0 \<le> C"
  shows "D \<le> (C + 5) / 1125899906842624"
  using assms by (simp add: field_simps)

lemma to_fahrenheit_error:
  assumes "\<bar>c\<bar> \<le> 10 ^ 6"
  shows "\<exists>y. to_fahrenheit c = Finite y \<and> \<bar>y - (c * 9 / 5 + 32)\<bar> \<le> (\<bar>c\<bar> + 5) / 2 ^ 50"
proof -
  have p: "(2::rat) ^ 53 = 9007199254740992" "(2::rat) ^ 60 = 1152921504606846976"
    "(2::rat) ^ 50 = 1125899906842624"
    by simp_all
  have c9: "\<bar>c * 9\<bar> = 9 * \<bar>c\<bar>"
    by (simp add: abs_mult)
  then have "\<bar>c * 9\<bar> \<le> 10 ^ 8"
    using assms by simp
  from fl64_error_coarse [OF this] obtain a where a: "fl64 (c * 9) = Finite a"
    "\<bar>a - c * 9\<bar> \<le> \<bar>c * 9\<bar> / 2 ^ 53 + 1 / 2 ^ 60"
    by blast
  have a_err: "\<bar>a - c * 9\<bar> \<le> 9 * \<bar>c\<bar> / 9007199254740992 + 1 / 1152921504606846976"
    using a(2) unfolding c9 p .
  have a_size: "\<bar>a\<bar> \<le> 10 * \<bar>c\<bar> + 1"
    using a_err by linarith
  have a5: "\<bar>a / 5\<bar> = \<bar>a\<bar> / 5"
    by simp
  then have "\<bar>a / 5\<bar> \<le> 10 ^ 8"
    using assms a_size by simp
  from fl64_error_coarse [OF this] obtain b where b: "fl64 (a / 5) = Finite b"
    "\<bar>b - a / 5\<bar> \<le> \<bar>a / 5\<bar> / 2 ^ 53 + 1 / 2 ^ 60"
    by blast
  have b_err: "\<bar>b - a / 5\<bar> \<le> \<bar>a\<bar> / 5 / 9007199254740992 + 1 / 1152921504606846976"
    using b(2) unfolding a5 p .
  have b_size: "\<bar>b\<bar> \<le> 3 * \<bar>c\<bar> + 1"
    using b_err a_size by linarith
  have b32: "\<bar>b + 32\<bar> \<le> \<bar>b\<bar> + 32"
    by linarith
  then have "\<bar>b + 32\<bar> \<le> 10 ^ 8"
    using assms b_size by simp
  from fl64_error_coarse [OF this] obtain y where y: "fl64 (b + 32) = Finite y"
    "\<bar>y - (b + 32)\<bar> \<le> \<bar>b + 32\<bar> / 2 ^ 53 + 1 / 2 ^ 60"
    by blast
  have "\<bar>b + 32\<bar> / 9007199254740992 \<le> (\<bar>b\<bar> + 32) / 9007199254740992"
    using b32 by (simp add: divide_right_mono)
  then have y_err: "\<bar>y - (b + 32)\<bar> \<le> (\<bar>b\<bar> + 32) / 9007199254740992 + 1 / 1152921504606846976"
    using y(2) unfolding p by linarith
  have "to_fahrenheit c = Finite y"
    using a(1) b(1) y(1) by (simp add: to_fahrenheit_def float_mul_def float_div_def float_add_def)
  moreover have "\<bar>y - (c * 9 / 5 + 32)\<bar> \<le> \<bar>y - (b + 32)\<bar> + \<bar>b - a / 5\<bar> + \<bar>a - c * 9\<bar> / 5"
  proof -
    have tri: "\<bar>x1 + x2 + x3\<bar> \<le> \<bar>x1\<bar> + \<bar>x2\<bar> + \<bar>x3\<bar>" for x1 x2 x3 :: rat
      by linarith
    have "y - (c * 9 / 5 + 32) = (y - (b + 32)) + (b - a / 5) + (a - c * 9) / 5"
      by (simp add: field_simps)
    moreover have "\<bar>(a - c * 9) / 5\<bar> = \<bar>a - c * 9\<bar> / 5"
      by simp
    ultimately show ?thesis
      using tri [of "y - (b + 32)" "b - a / 5" "(a - c * 9) / 5"] by simp
  qed
  then have "\<bar>y - (c * 9 / 5 + 32)\<bar> \<le> (\<bar>c\<bar> + 5) / 1125899906842624"
    using a_err b_err y_err a_size b_size by (rule error_sum) simp
  then have "\<bar>y - (c * 9 / 5 + 32)\<bar> \<le> (\<bar>c\<bar> + 5) / 2 ^ 50"
    unfolding p .
  ultimately show ?thesis by blast
qed


lemma round_half_even_unique:
  assumes "\<bar>x - of_int m\<bar> < 1 / 2"
  shows "round_half_even x = m"
proof (cases "of_int m \<le> x")
  case True
  then have "\<lfloor>x\<rfloor> = m"
    using assms by (intro floor_unique) linarith+
  then show ?thesis
    using assms True by (simp add: round_half_even_def Let_def)
next
  case False
  then have "of_int m - 1 \<le> x" "x < of_int m"
    using assms by linarith+
  then have "\<lfloor>x\<rfloor> = m - 1"
    by (intro floor_unique) simp_all
  moreover have "1 / 2 < x - (of_int m - 1)"
    using assms False by linarith
  ultimately show ?thesis
    by (simp add: round_half_even_def Let_def)
qed

lemma format_f_same:
  assumes "q < 0 \<longleftrightarrow> q' < 0"
    and "round_half_even (\<bar>q\<bar> * 10) = round_half_even (\<bar>q'\<bar> * 10)"
  shows "format_f 1 q = format_f 1 q'"
  using assms by (simp add: format_f_def)

lemma whole_degree_exact:
  fixes n :: int
  assumes "\<bar>n\<bar> \<le> 10 ^ 6"
  shows "format_float 1 (to_fahrenheit (of_int n)) = format_f 1 (of_int n * 9 / 5 + 32)"
proof -
  define F :: rat where "F = of_int n * 9 / 5 + 32"
  define m :: int where "m = 18 * n + 320"
  have F10: "F * 10 = of_int m"
    by (simp add: F_def m_def)
  have "m \<noteq> 0"
    unfolding m_def by presburger
  then have m1: "1 \<le> \<bar>m\<bar>"
    by simp
  have "\<bar>of_int n :: rat\<bar> \<le> 10 ^ 6"
    using assms by (metis of_int_abs of_int_le_iff of_int_numeral of_int_power)
  from to_fahrenheit_error [OF this] obtain y where y: "to_fahrenheit (of_int n) = Finite y"
    "\<bar>y - F\<bar> \<le> (\<bar>of_int n\<bar> + 5) / 2 ^ 50"
    unfolding F_def by blast
  have "(\<bar>of_int n :: rat\<bar> + 5) / 2 ^ 50 \<le> (10 ^ 6 + 5) / 2 ^ 50"
    using \<open>\<bar>of_int n :: rat\<bar> \<le> 10 ^ 6\<close> by (simp add: divide_right_mono)
  also have "\<dots> < 1 / 100"
    by simp
  finally have near: "\<bar>y - F\<bar> < 1 / 100"
    using y(2) by simp
  have far: "1 \<le> \<bar>F * 10\<bar>"
    using m1 unfolding F10 by (metis of_int_1 of_int_abs of_int_le_iff)
  have far': "1 / 10 \<le> \<bar>F\<bar>"
    using far by (simp add: abs_mult)
  have sign: "y < 0 \<longleftrightarrow> F < 0"
  proof (cases "F < 0")
    case True
    then have "y < 0" using near far' by linarith
    with True show ?thesis by simp
  next
    case False
    then have "\<not> y < 0" using near far' by linarith
    with False show ?thesis by simp
  qed
  have "\<bar>\<bar>y\<bar> * 10 - \<bar>F\<bar> * 10\<bar> < 1 / 2"
    using near by linarith
  moreover have "\<bar>F\<bar> * 10 = of_int \<bar>m\<bar>"
    using F10 by (metis abs_mult abs_numeral of_int_abs)
  ultimately have "round_half_even (\<bar>y\<bar> * 10) = \<bar>m\<bar>" "round_half_even (\<bar>F\<bar> * 10) = \<bar>m\<bar>"
    by (simp_all add: round_half_even_unique)
  with sign have "format_f 1 y = format_f 1 F"
    by (intro format_f_same) simp_all
  then show ?thesis
    using y(1) by (simp add: format_float_def F_def del: One_nat_def)
qed

text \<open>
  C5, amended. For a coolant or intake air temperature with magnitude \<open>c\<close>, the dashboard
  cell and the terminal line show \<open>c\<close> with one decimal before the Celsius unit and, before
  the Fahrenheit unit, the value binary64 arithmetic gives for \<^verbatim>\<open>c * 9/5 + 32\<close> with one
  decimal. For magnitudes up to a million that value is a finite number no further than
  \<open>(\<bar>c\<bar> + 5) / 2\<^sup>5\<^sup>0\<close> from the exact \<open>c * 9/5 + 32\<close>, and for every whole number of
  degrees in that range the Fahrenheit text is the exact \<open>c * 9/5 + 32\<close> with one decimal.
  One decimal means: a sign, the digits of \<open>r div 10\<close>, a point and the digit
  \<open>r mod 10\<close>, for an integer \<open>r\<close> no further than one half from ten times the magnitude
  of the value.
\<close>

theorem C5_temperature_format:
  "format_value ''coolant_temp'' (Some c) =
     format_f 1 c @ [degree_sign] @ ''C'' @ [newline] @ ''('' @ format_float 1 (to_fahrenheit c)
       @ [degree_sign] @ ''F)''
   \<and> format_value ''intake_temp'' (Some c) = format_value ''coolant_temp'' (Some c)
   \<and> coolant_line (Some c) =
       ''Coolant Temp:    '' @ format_f 1 c @ [degree_sign] @ ''C ('' @ format_float 1 (to_fahrenheit c)
         @ [degree_sign] @ ''F)''
   \<and> iat_line (Some c) =
       ''Intake Air Temp: '' @ format_f 1 c @ [degree_sign] @ ''C ('' @ format_float 1 (to_fahrenheit c)
         @ [degree_sign] @ ''F)''
   \<and> (\<bar>c\<bar> \<le> 10 ^ 6
      \<longrightarrow> (\<exists>y. to_fahrenheit c = Finite y \<and> \<bar>y - (c * 9 / 5 + 32)\<bar> \<le> (\<bar>c\<bar> + 5) / 2 ^ 50))
   \<and> (\<bar>n\<bar> \<le> 10 ^ 6
      \<longrightarrow> format_float 1 (to_fahrenheit (of_int n)) = format_f 1 (of_int n * 9 / 5 + 32))
   \<and> format_f 1 q =
       (if q < 0 then ''-'' else '''') @ show_digits (round_half_even (\<bar>q\<bar> * 10) div 10)
         @ ''.'' @ [digit_char (round_half_even (\<bar>q\<bar> * 10) mod 10)]
   \<and> \<bar>of_int (round_half_even (\<bar>q\<bar> * 10)) - \<bar>q\<bar> * 10\<bar> \<le> 1 / 2"
proof (intro conjI impI)
  assume "\<bar>c\<bar> \<le> 10 ^ 6"
  then show "\<exists>y. to_fahrenheit c = Finite y \<and> \<bar>y - (c * 9 / 5 + 32)\<bar> \<le> (\<bar>c\<bar> + 5) / 2 ^ 50"
    by (rule to_fahrenheit_error)
next
  assume "\<bar>n\<bar> \<le> 10 ^ 6"
  then show "format_float 1 (to_fahrenheit (of_int n)) = format_f 1 (of_int n * 9 / 5 + 32)"
    by (rule whole_degree_exact)
next
  show "format_f 1 q =
      (if q < 0 then ''-'' else '''') @ show_digits (round_half_even (\<bar>q\<bar> * 10) div 10)
        @ ''.'' @ [digit_char (round_half_even (\<bar>q\<bar> * 10) mod 10)]"
    by (rule format_one_decimal)
next
  show "\<bar>of_int (round_half_even (\<bar>q\<bar> * 10)) - \<bar>q\<bar> * 10\<bar> \<le> 1 / 2"
    by (rule round_half_even_close)
qed (simp_all add: format_value_def coolant_line_def iat_line_def del: One_nat_def)

theorem C5_temperature_format_witness:
  "\<bar>20 :: rat\<bar> \<le> 10 ^ 6
   \<and> to_fahrenheit 20 = Finite 68
   \<and> \<bar>68 - (20 * 9 / 5 + 32 :: rat)\<bar> \<le> (\<bar>20\<bar> + 5) / 2 ^ 50
   \<and> \<bar>20 :: int\<bar> \<le> 10 ^ 6
   \<and> format_float 1 (to_fahrenheit (of_int (20 :: int))) = format_f 1 (of_int (20 :: int) * 9 / 5 + 32)
   \<and> format_f 1 20 = ''20.0''
   \<and> format_f 1 68 = ''68.0''
   \<and> format_value ''coolant_temp'' (Some 20) =
       ''20.0'' @ [degree_sign] @ ''C'' @ [newline] @ ''(68.0'' @ [degree_sign] @ ''F)''
   \<and> format_value ''intake_temp'' (Some 20) =
       ''20.0'' @ [degree_sign] @ ''C'' @ [newline] @ ''(68.0'' @ [degree_sign] @ ''F)''
   \<and> coolant_line (Some 20) =
       ''Coolant Temp:    20.0'' @ [degree_sign] @ ''C (68.0'' @ [degree_sign] @ ''F)''
   \<and> iat_line (Some 20) =
       ''Intake Air Temp: 20.0'' @ [degree_sign] @ ''C (68.0'' @ [degree_sign] @ ''F)''"
proof -
  have small: "\<bar>20 :: rat\<bar> \<le> 10 ^ 6" "\<bar>20 :: int\<bar> \<le> 10 ^ 6"
    by simp_all
  have bound: "\<bar>68 - (20 * 9 / 5 + 32 :: rat)\<bar> \<le> (\<bar>20\<bar> + 5) / 2 ^ 50"
    by simp
  from C5_temperature_format [where n = 20] small(2)
  have whole: "format_float 1 (to_fahrenheit (of_int (20 :: int))) =
      format_f 1 (of_int (20 :: int) * 9 / 5 + 32)"
    by blast
  show ?thesis
    using small bound whole to_fahrenheit_20 format_20 format_68 format_value_coolant_20
      format_value_intake_20 coolant_line_20 iat_line_20
    by blast
qed

lemma below_quarter_float: "fl64 below_quarter = Finite below_quarter"
  by code_simp

lemma below_quarter_times: "fl64 (below_quarter * 9) = Finite (5066549580791807 / 2251799813685248)"
  by code_simp

lemma below_quarter_div:
  "fl64 (5066549580791807 / 11258999068426240) = Finite (8106479329266891 / 18014398509481984)"
  by code_simp

lemma below_quarter_plus:
  "fl64 (584567231632690379 / 18014398509481984) = Finite (2283465748565197 / 70368744177664)"
  by code_simp

lemma below_quarter_texts:
  "format_f 1 below_quarter = ''0.2''"
  "format_f 1 (2283465748565197 / 70368744177664) = ''32.5''"
  "format_f 1 (below_quarter * 9 / 5 + 32) = ''32.4''"
  by code_simp+

lemma to_fahrenheit_below_quarter:
  "to_fahrenheit below_quarter = Finite (2283465748565197 / 70368744177664)"
  by (simp add: to_fahrenheit_def float_mul_def float_div_def float_add_def below_quarter_times
      below_quarter_div below_quarter_plus)

text \<open>
  C5, as stated, fails for the exact \<open>c * 9/5 + 32\<close>: at the binary64 magnitude just below
  one quarter the program shows 32.5 degrees Fahrenheit, and the exact value
  32.4499999... has the one-decimal rounding 32.4. The rounding of the three float
  operations carries the computed value across the tie.
\<close>

theorem C5_counterexample:
  "fl64 below_quarter = Finite below_quarter
   \<and> format_value ''coolant_temp'' (Some below_quarter) =
       ''0.2'' @ [degree_sign] @ ''C'' @ [newline] @ ''(32.5'' @ [degree_sign] @ ''F)''
   \<and> coolant_line (Some below_quarter) =
       ''Coolant Temp:    0.2'' @ [degree_sign] @ ''C (32.5'' @ [degree_sign] @ ''F)''
   \<and> format_f 1 (below_quarter * 9 / 5 + 32) = ''32.4''"
  using below_quarter_float
  by (simp add: format_value_def coolant_line_def to_fahrenheit_below_quarter format_float_def
      below_quarter_texts del: One_nat_def)

subsection \<open>The terminal report\<close>

lemma fl64_810: "fl64 810 = Finite 810"
  by (simp add: fl64_eval)

lemma fl64_162: "fl64 162 = Finite 162"
  by (simp add: fl64_eval)

lemma fl64_194: "fl64 194 = Finite 194"
  by (simp add: fl64_eval)

lemma to_fahrenheit_90: "to_fahrenheit 90 = Finite 194"
  by (simp add: to_fahrenheit_def float_mul_def float_div_def float_add_def fl64_810 fl64_162
      fl64_194)

lemma rule_25: "replicate 25 (CHR ''-'') = ''-------------------------''"
  by code_simp

lemma format_0: "format_f 0 0 = ''0''"
  by code_simp

lemma format_90: "format_f 1 90 = ''90.0''"
  by code_simp

lemma format_194: "format_f 1 194 = ''194.0''"
  by code_simp

lemma terminal_cycle_scenario:
  "terminal_cycle scenario_cycle =
     ([Clear_screen,
       Print ''=== OBD-II LIVE DATA ==='',
       Print ''-------------------------'',
       Query RPM, Print ''Engine RPM:      0 rpm'',
       Query SPEED, Print ''Vehicle Speed:   No data'',
       Query COOLANT_TEMP,
       Print (''Coolant Temp:    90.0'' @ [degree_sign] @ ''C (194.0'' @ [degree_sign] @ ''F)''),
       Query THROTTLE_POS, Print ''Throttle Pos:    No data'',
       Query ENGINE_LOAD, Print ''Engine Load:     No data'',
       Query INTAKE_TEMP, Print ''Intake Air Temp: No data'',
       Query FUEL_LEVEL, Print ''Fuel Level:      No data'',
       Print ''-------------------------'',
       Print ''Press Ctrl+C to exit'',
       Sleep 1], None)"
  by (simp add: terminal_cycle_def scenario_cycle_def scenario_replies_def read_and_print_def
      sleep_step_def rpm_line_def speed_line_def coolant_line_def throttle_line_def load_line_def
      iat_line_def fuel_line_def to_fahrenheit_90 format_float_def format_0 format_90 format_194
      rule_25 del: One_nat_def)

text \<open>
  C1, as stated, fails: the report of a pass has seven readings. Terminal mode never
  queries the fuel pressure and prints no line for it.
\<close>

theorem C1_counterexample:
  "fst (terminal_cycle scenario_cycle) =
     [Clear_screen,
       Print ''=== OBD-II LIVE DATA ==='',
       Print ''-------------------------'',
       Query RPM, Print ''Engine RPM:      0 rpm'',
       Query SPEED, Print ''Vehicle Speed:   No data'',
       Query COOLANT_TEMP,
       Print (''Coolant Temp:    90.0'' @ [degree_sign] @ ''C (194.0'' @ [degree_sign] @ ''F)''),
       Query THROTTLE_POS, Print ''Throttle Pos:    No data'',
       Query ENGINE_LOAD, Print ''Engine Load:     No data'',
       Query INTAKE_TEMP, Print ''Intake Air Temp: No data'',
       Query FUEL_LEVEL, Print ''Fuel Level:      No data'',
       Print ''-------------------------'',
       Print ''Press Ctrl+C to exit'',
       Sleep 1]
   \<and> Query FUEL_PRESSURE \<notin> set (fst (terminal_cycle scenario_cycle))"
  by (simp add: terminal_cycle_scenario)

lemma is_answer_reading: "is_answer r \<Longrightarrow> r = Answers (reading r)"
  by (cases r) (simp_all add: is_answer_def reading_def)

lemma read_and_print_answer:
  "is_answer (rep cmd) \<Longrightarrow>
     read_and_print rep cmd line = ([Query cmd, Print (line (reading (rep cmd)))], None)"
  by (cases "rep cmd") (simp_all add: read_and_print_def is_answer_def reading_def)

lemma terminal_cycle_quiet: "quiet env \<Longrightarrow> terminal_cycle env = (full_report env, None)"
  by (simp add: quiet_def terminal_commands_def terminal_cycle_def read_and_print_answer
      sleep_step_def full_report_def rule_25)

lemma polling_loop_quiet:
  "(\<And>j. j < n \<Longrightarrow> quiet (cycles (i + j))) \<Longrightarrow>
     polling_loop cycles i n = (concat (map (\<lambda>j. full_report (cycles j)) [i..<i + n]), None)"
proof (induction n arbitrary: i)
  case 0
  show ?case by simp
next
  case (Suc n)
  have first: "quiet (cycles i)"
    using Suc.prems [of 0] by simp
  have rest: "polling_loop cycles (Suc i) n =
      (concat (map (\<lambda>j. full_report (cycles j)) [Suc i..<Suc i + n]), None)"
  proof (rule Suc.IH)
    fix j assume "j < n"
    then show "quiet (cycles (Suc i + j))"
      using Suc.prems [of "Suc j"] by simp
  qed
  have "[i..<i + Suc n] = i # [Suc i..<Suc i + n]"
    by (simp add: upt_conv_Cons)
  with first rest show ?case
    by (simp add: terminal_cycle_quiet)
qed

text \<open>
  C1, amended. Once terminal mode is connected, every pass in which no query raises and
  no interrupt arrives prints the report \<open>full_report\<close>: in a fixed order, a formatted
  reading of RPM, speed, coolant temperature, throttle position, engine load, intake air
  temperature and fuel level, then a sleep of one second. After any number \<open>n\<close> of such
  passes the loop has printed \<open>n\<close> reports and is still running.
\<close>

theorem C1_terminal_report:
  assumes "snd (try_auto a (snd (try_port a))) = Yields c"
    and "is_connected c"
    and "\<forall>j<n. quiet (cycles j)"
  shows "terminal_mode a False cycles n =
     ([Print ''Connecting to OBD-II port...''] @ fst (try_port a)
        @ fst (try_auto a (snd (try_port a))) @ start_report c
        @ concat (map (\<lambda>j. full_report (cycles j)) [0..<n]),
      Still_running)"
proof -
  have "polling_loop cycles 0 n = (concat (map (\<lambda>j. full_report (cycles j)) [0..<0 + n]), None)"
    by (rule polling_loop_quiet) (simp add: assms(3))
  then show ?thesis
    using assms(1,2) by (simp add: terminal_mode_def split_def Let_def)
qed

lemma quiet_scenario_cycle: "quiet scenario_cycle"
  by (simp add: quiet_def scenario_cycle_def scenario_replies_def terminal_commands_def
      is_answer_def)

lemma good_adapter_connects:
  "snd (try_auto good_adapter (snd (try_port good_adapter))) = Yields port_conn"
  by (simp add: try_auto_def try_port_def good_adapter_def port_conn_def)

theorem C1_terminal_report_witness:
  "snd (try_auto good_adapter (snd (try_port good_adapter))) = Yields port_conn
   \<and> is_connected port_conn
   \<and> quiet scenario_cycle
   \<and> terminal_mode good_adapter False (\<lambda>j. scenario_cycle) 2 =
       ([Print ''Connecting to OBD-II port...'',
         Print ''Trying /dev/ttyACM0...'', Open_port,
         Print ''Connected via /dev/ttyACM0!'',
         Print ''Connected to: /dev/ttyACM0'',
         Print ''Protocol: ISO 15765-4'',
         Print (newline # ''Starting data read... (Press Ctrl+C to exit)''),
         Sleep 2]
          @ full_report scenario_cycle @ full_report scenario_cycle,
        Still_running)"
proof -
  have "is_connected port_conn"
    by (simp add: port_conn_def)
  moreover have "\<forall>j<2. quiet ((\<lambda>j. scenario_cycle) j)"
    by (simp add: quiet_scenario_cycle)
  ultimately have "terminal_mode good_adapter False (\<lambda>j. scenario_cycle) 2 =
      ([Print ''Connecting to OBD-II port...''] @ fst (try_port good_adapter)
         @ fst (try_auto good_adapter (snd (try_port good_adapter))) @ start_report port_conn
         @ concat (map (\<lambda>j. full_report ((\<lambda>j. scenario_cycle) j)) [0..<2]),
       Still_running)"
    using good_adapter_connects by (intro C1_terminal_report) simp_all
  moreover have "[0..<2] = [0, Suc 0]"
    by (simp add: upt_conv_Cons)
  ultimately show ?thesis
    using quiet_scenario_cycle
    by (simp add: try_auto_def try_port_def good_adapter_def port_conn_def start_report_def)
qed

subsection \<open>One pass of the polling thread\<close>

lemma publish_fields [simp]:
  "is_running (publish param v s) = is_running s"
  "connection (publish param v s) = connection s"
  "data_vars (publish param v s) = data_vars s"
  by (simp_all add: publish_def)

lemma publish_present:
  "param \<in> fst ` set (data_vars s) \<Longrightarrow>
     publish param v s = s\<lparr>after_queue := after_queue s @ [(param, format_value param v)]\<rparr>"
  by (simp add: publish_def)

lemma poll_params_answers:
  assumes "is_running s" and "connection s = Some c"
    and "list_all (\<lambda>(param, cmd). is_answer (rep cmd)) xs"
    and "fst ` set xs \<subseteq> fst ` set (data_vars s)"
  shows "poll_params (xs @ ys) rep s =
     (case poll_params ys rep (s\<lparr>after_queue := after_queue s @ published rep xs\<rparr>) of
        (evs, s', r) \<Rightarrow> (map (Query \<circ> snd) xs @ evs, s', r))"
  using assms
proof (induction xs arbitrary: s)
  case Nil
  then show ?case by (simp add: published_def)
next
  case (Cons x xs)
  obtain param cmd where x: "x = (param, cmd)"
    by (cases x)
  from Cons.prems x obtain v where v: "rep cmd = Answers v"
    by (cases "rep cmd") (simp_all add: is_answer_def)
  let ?s1 = "s\<lparr>after_queue := after_queue s @ [(param, format_value param v)]\<rparr>"
  have pub: "publish param v s = ?s1"
    using Cons.prems(4) x by (simp add: publish_present)
  have "poll_params (xs @ ys) rep ?s1 =
      (case poll_params ys rep (?s1\<lparr>after_queue := after_queue ?s1 @ published rep xs\<rparr>) of
         (evs, s', r) \<Rightarrow> (map (Query \<circ> snd) xs @ evs, s', r))"
    using Cons.prems by (intro Cons.IH) simp_all
  then show ?case
    using Cons.prems(1,2) x v pub
    by (simp add: published_def reading_def split: prod.splits)
qed

lemma poll_params_raises:
  assumes "is_running s" and "connection s = Some c" and "rep cmd = Raises e"
  shows "poll_params ((param, cmd) # rest) rep s = ([Query cmd], s, Some e)"
  using assms by simp

lemma keys_subset:
  "map fst (data_vars s) = map fst commands \<Longrightarrow> fst ` set (take k commands) \<subseteq> fst ` set (data_vars s)"
proof -
  assume a: "map fst (data_vars s) = map fst commands"
  have "fst ` set (take k commands) \<subseteq> set (map fst commands)"
    by (auto dest: in_set_takeD)
  also have "\<dots> = fst ` set (data_vars s)"
    using a by (metis set_map)
  finally show ?thesis .
qed

lemma poll_cycle_answers:
  assumes "is_running s" and "connection s = Some c"
    and "map fst (data_vars s) = map fst commands"
    and "list_all (\<lambda>(param, cmd). is_answer (rep cmd)) commands"
  shows "poll_cycle rep s =
     (map (Query \<circ> snd) commands @ [Sleep (1 / 2)],
      s\<lparr>after_queue := after_queue s @ published rep commands\<rparr>, None)"
proof -
  have "fst ` set commands \<subseteq> fst ` set (data_vars s)"
    using keys_subset [OF assms(3), of "length commands"] by simp
  with assms have "poll_params (commands @ []) rep s =
      (case poll_params [] rep (s\<lparr>after_queue := after_queue s @ published rep commands\<rparr>) of
         (evs, s', r) \<Rightarrow> (map (Query \<circ> snd) commands @ evs, s', r))"
    by (intro poll_params_answers) simp_all
  then show ?thesis
    by (simp add: poll_cycle_def)
qed

lemma poll_params_stops:
  assumes "is_running s" and "connection s = Some c"
    and "map fst (data_vars s) = map fst commands"
    and "k < length commands"
    and "list_all (\<lambda>(param, cmd). is_answer (rep cmd)) (take k commands)"
    and "rep (snd (commands ! k)) = Raises e"
  shows "poll_params commands rep s =
     (map (Query \<circ> snd) (take (Suc k) commands),
      s\<lparr>after_queue := after_queue s @ published rep (take k commands)\<rparr>, Some e)"
proof -
  let ?s1 = "s\<lparr>after_queue := after_queue s @ published rep (take k commands)\<rparr>"
  have split: "commands = take k commands @ (fst (commands ! k), snd (commands ! k)) # drop (Suc k) commands"
    using assms(4) by (simp add: id_take_nth_drop)
  have "poll_params (take k commands @ (fst (commands ! k), snd (commands ! k)) # drop (Suc k) commands) rep s =
      (case poll_params ((fst (commands ! k), snd (commands ! k)) # drop (Suc k) commands) rep ?s1 of
         (evs, s', r) \<Rightarrow> (map (Query \<circ> snd) (take k commands) @ evs, s', r))"
    using assms(1,2,5) keys_subset [OF assms(3)] by (intro poll_params_answers) simp_all
  moreover have "poll_params ((fst (commands ! k), snd (commands ! k)) # drop (Suc k) commands) rep ?s1 =
      ([Query (snd (commands ! k))], ?s1, Some e)"
    using assms(1,2,6) by (intro poll_params_raises) simp_all
  ultimately have "poll_params commands rep s =
      (map (Query \<circ> snd) (take k commands) @ [Query (snd (commands ! k))], ?s1, Some e)"
    using split by simp
  moreover have "map (Query \<circ> snd) (take (Suc k) commands) =
      map (Query \<circ> snd) (take k commands) @ [Query (snd (commands ! k))]"
    using assms(4) by (simp add: take_Suc_conv_app_nth)
  ultimately show ?thesis by simp
qed

lemma poll_cycle_raises:
  assumes "is_running s" and "connection s = Some c"
    and "map fst (data_vars s) = map fst commands"
    and "k < length commands"
    and "list_all (\<lambda>(param, cmd). is_answer (rep cmd)) (take k commands)"
    and "rep (snd (commands ! k)) = Raises (Exception msg)"
  shows "poll_cycle rep s =
     (map (Query \<circ> snd) (take (Suc k) commands) @ [Print (''Error reading data: '' @ msg), Sleep 1],
      s\<lparr>after_queue := after_queue s @ published rep (take k commands)\<rparr>, None)"
  using poll_params_stops [OF assms] by (simp add: poll_cycle_def)

subsection \<open>Running the pending updates\<close>

lemma set_var_append: "set_var (d1 @ d2) k v = set_var d1 k v @ set_var d2 k v"
  by (simp add: set_var_def)

lemma set_var_absent: "k \<notin> fst ` set d \<Longrightarrow> set_var d k v = d"
  by (induction d) (auto simp: set_var_def)

lemma foldl_set_var_append:
  "fst ` set q \<inter> fst ` set d2 = {} \<Longrightarrow>
     foldl (\<lambda>d (k, v). set_var d k v) (d1 @ d2) q = foldl (\<lambda>d (k, v). set_var d k v) d1 q @ d2"
proof (induction q arbitrary: d1)
  case Nil
  show ?case by simp
next
  case (Cons x q)
  obtain k v where x: "x = (k, v)" by (cases x)
  have "k \<notin> fst ` set d2"
    using Cons.prems x by auto
  then have "set_var (d1 @ d2) k v = set_var d1 k v @ d2"
    by (simp add: set_var_append set_var_absent)
  moreover have "fst ` set q \<inter> fst ` set d2 = {}"
    using Cons.prems by auto
  ultimately show ?case
    using Cons.IH [of "set_var d1 k v"] x by simp
qed

lemma foldl_set_var_same_keys:
  "distinct (map fst d) \<Longrightarrow> map fst q = map fst d \<Longrightarrow>
     foldl (\<lambda>d (k, v). set_var d k v) d q = q"
proof (induction d arbitrary: q rule: rev_induct)
  case Nil
  then show ?case by simp
next
  case (snoc x d)
  obtain k old where x: "x = (k, old)" by (cases x)
  from snoc.prems(2) obtain q' y where q: "q = q' @ [y]"
    by (cases q rule: rev_cases) auto
  obtain k' v where y: "y = (k', v)" by (cases y)
  from snoc.prems(2) q x y have keys: "map fst q' = map fst d" and k': "k' = k"
    by auto
  from snoc.prems(1) x have dist: "distinct (map fst d)" and fresh: "k \<notin> fst ` set d"
    by auto
  have "fst ` set q' = fst ` set d"
    using keys by (metis set_map)
  then have disj: "fst ` set q' \<inter> fst ` set [(k, old)] = {}"
    using fresh by auto
  have "foldl (\<lambda>d (k, v). set_var d k v) (d @ [(k, old)]) q' =
      foldl (\<lambda>d (k, v). set_var d k v) d q' @ [(k, old)]"
    by (rule foldl_set_var_append [OF disj])
  also have "\<dots> = q' @ [(k, old)]"
    using snoc.IH [OF dist keys] by simp
  finally have "foldl (\<lambda>d (k, v). set_var d k v) (d @ [(k, old)]) q = set_var (q' @ [(k, old)]) k v"
    using q y k' by simp
  also have "\<dots> = q' @ [(k, v)]"
  proof -
    have "k \<notin> fst ` set q'"
      using \<open>fst ` set q' = fst ` set d\<close> fresh by simp
    then show ?thesis
      by (simp add: set_var_append set_var_absent) (simp add: set_var_def)
  qed
  finally show ?case
    using x q y k' by simp
qed

lemma distinct_commands: "distinct (map fst commands)"
  by (simp add: commands_def)

lemma foldl_set_var_prefix:
  assumes "map fst d = map fst commands" and "map fst q = map fst (take k commands)"
  shows "foldl (\<lambda>d (k, v). set_var d k v) d q = q @ drop k d"
proof -
  have dist: "distinct (map fst d)"
    using assms(1) distinct_commands by simp
  have "map fst (take k d) = take k (map fst d)"
    by (simp add: take_map)
  also have "\<dots> = take k (map fst commands)"
    using assms(1) by simp
  also have "\<dots> = map fst (take k commands)"
    by (simp add: take_map)
  finally have keys: "map fst q = map fst (take k d)"
    using assms(2) by simp
  have d: "d = take k d @ drop k d"
    by simp
  have "distinct (map fst (take k d @ drop k d))"
    using dist by simp
  then have disj: "fst ` set q \<inter> fst ` set (drop k d) = {}" and dist_take: "distinct (map fst (take k d))"
    using keys by (auto simp del: append_take_drop_id simp: set_map [symmetric] simp del: set_map)
  have "foldl (\<lambda>d (k, v). set_var d k v) (take k d @ drop k d) q =
      foldl (\<lambda>d (k, v). set_var d k v) (take k d) q @ drop k d"
    by (rule foldl_set_var_append [OF disj])
  also have "\<dots> = q @ drop k d"
    using foldl_set_var_same_keys [OF dist_take keys] by simp
  finally show ?thesis by simp
qed

lemma published_keys: "map fst (published rep xs) = map fst xs"
  by (simp add: published_def split_def comp_def)

subsection \<open>A pass that fails part-way\<close>

lemma run_callback_funpow:
  "j \<le> length (after_queue s) \<Longrightarrow>
     (run_callback ^^ j) s =
       s\<lparr>data_vars := foldl (\<lambda>d (k, v). set_var d k v) (data_vars s) (take j (after_queue s)),
         after_queue := drop j (after_queue s)\<rparr>"
proof (induction j arbitrary: s)
  case 0
  show ?case by simp
next
  case (Suc j)
  then obtain k v q where q: "after_queue s = (k, v) # q"
    by (cases "after_queue s") auto
  let ?s1 = "s\<lparr>data_vars := set_var (data_vars s) k v, after_queue := q\<rparr>"
  have step: "run_callback s = ?s1"
    using q by (simp add: run_callback_def)
  have "j \<le> length (after_queue ?s1)"
    using Suc.prems q by simp
  from Suc.IH [OF this] show ?case
    using q step by (simp add: funpow_swap1)
qed

lemma run_pending_funpow: "run_pending s = (run_callback ^^ length (after_queue s)) s"
  by (simp add: run_callback_funpow run_pending_def)

lemma take_published: "j \<le> k \<Longrightarrow> take j (published rep (take k xs)) = published rep (take j xs)"
  by (simp add: published_def take_map min_def)

text \<open>
  C10. Let the query of item \<open>k\<close> of the command table raise an exception while the
  queries before it answer, on a running, connected dashboard whose event loop has caught
  up. The pass then queries nothing after item \<open>k\<close>, logs the error and sleeps one
  second, having handed over exactly the updates of the items before \<open>k\<close>. The event
  loop applies them one at a time: after \<open>j\<close> of them the first \<open>j\<close> cells show this
  pass's values and every other cell still shows its previous value, and once all are
  applied the cells before \<open>k\<close> show the new values and the cells from \<open>k\<close> on the
  previous ones. Nothing is taken back.
\<close>

theorem C10_partial_update:
  assumes "is_running s" and "connection s = Some c"
    and "map fst (data_vars s) = map fst commands"
    and "after_queue s = []"
    and "k < length commands"
    and "list_all (\<lambda>(param, cmd). is_answer (rep cmd)) (take k commands)"
    and "rep (snd (commands ! k)) = Raises (Exception msg)"
  shows "poll_cycle rep s =
       (map (Query \<circ> snd) (take (Suc k) commands)
          @ [Print (''Error reading data: '' @ msg), Sleep 1],
        s\<lparr>after_queue := published rep (take k commands)\<rparr>, None)
     \<and> (\<forall>j\<le>k. data_vars ((run_callback ^^ j) (s\<lparr>after_queue := published rep (take k commands)\<rparr>)) =
           published rep (take j commands) @ drop j (data_vars s))
     \<and> data_vars (run_pending (s\<lparr>after_queue := published rep (take k commands)\<rparr>)) =
         published rep (take k commands) @ drop k (data_vars s)"
proof -
  let ?s1 = "s\<lparr>after_queue := published rep (take k commands)\<rparr>"
  have len: "length (published rep (take k commands)) = k"
    using assms(5) by (simp add: published_def)
  have cycle: "poll_cycle rep s =
      (map (Query \<circ> snd) (take (Suc k) commands)
         @ [Print (''Error reading data: '' @ msg), Sleep 1], ?s1, None)"
    using poll_cycle_raises [OF assms(1,2,3,5,6,7)] assms(4) by simp
  have steps: "data_vars ((run_callback ^^ j) ?s1) =
      published rep (take j commands) @ drop j (data_vars s)" if "j \<le> k" for j
  proof -
    have "data_vars ((run_callback ^^ j) ?s1) =
        foldl (\<lambda>d (k, v). set_var d k v) (data_vars s) (published rep (take j commands))"
      using that len by (simp add: run_callback_funpow take_published)
    also have "\<dots> = published rep (take j commands) @ drop j (data_vars s)"
      using assms(3) by (intro foldl_set_var_prefix) (simp_all add: published_keys)
    finally show ?thesis .
  qed
  have "data_vars (run_pending ?s1) = data_vars ((run_callback ^^ k) ?s1)"
    using len by (simp add: run_pending_funpow)
  with cycle steps show ?thesis
    by simp
qed

lemma busy_gui_fields:
  "is_running busy_gui" "after_queue busy_gui = []"
  by code_simp+

lemma published_coolant_failing:
  "published coolant_failing_replies (take 2 commands) = [(''rpm'', ''900''), (''speed'', ''30'')]"
  by code_simp

lemma coolant_failing_facts:
  "list_all (\<lambda>(param, cmd). is_answer (coolant_failing_replies cmd)) (take 2 commands)"
  "coolant_failing_replies (snd (commands ! 2)) = Raises (Exception ''read failed'')"
  "map (Query \<circ> snd) (take (Suc 2) commands) = [Query RPM, Query SPEED, Query COOLANT_TEMP]"
  "(2::nat) < length commands"
  by code_simp+

theorem C10_partial_update_witness:
  "is_running busy_gui
   \<and> connection busy_gui = Some port_conn
   \<and> map fst (data_vars busy_gui) = map fst commands
   \<and> after_queue busy_gui = []
   \<and> 2 < length commands
   \<and> list_all (\<lambda>(param, cmd). is_answer (coolant_failing_replies cmd)) (take 2 commands)
   \<and> coolant_failing_replies (snd (commands ! 2)) = Raises (Exception ''read failed'')
   \<and> poll_cycle coolant_failing_replies busy_gui =
       ([Query RPM, Query SPEED, Query COOLANT_TEMP,
         Print ''Error reading data: read failed'', Sleep 1],
        busy_gui\<lparr>after_queue := [(''rpm'', ''900''), (''speed'', ''30'')]\<rparr>, None)
   \<and> data_vars busy_gui =
       [(''rpm'', ''850''), (''speed'', ''N/A''), (''coolant_temp'', ''--''),
        (''throttle_pos'', ''--''), (''engine_load'', ''--''), (''intake_temp'', ''--''),
        (''fuel_level'', ''--''), (''fuel_pressure'', ''--'')]
   \<and> data_vars (run_pending (busy_gui\<lparr>after_queue := [(''rpm'', ''900''), (''speed'', ''30'')]\<rparr>)) =
       [(''rpm'', ''900''), (''speed'', ''30''), (''coolant_temp'', ''--''),
        (''throttle_pos'', ''--''), (''engine_load'', ''--''), (''intake_temp'', ''--''),
        (''fuel_level'', ''--''), (''fuel_pressure'', ''--'')]"
proof -
  have keys: "map fst (data_vars busy_gui) = map fst commands"
    by (simp add: data_vars_busy_gui commands_def)
  note C10_partial_update [OF busy_gui_fields(1) connection_busy_gui keys busy_gui_fields(2)
      coolant_failing_facts(4) coolant_failing_facts(1) coolant_failing_facts(2)]
  then show ?thesis
    using keys busy_gui_fields connection_busy_gui coolant_failing_facts
    by (simp add: published_coolant_failing data_vars_busy_gui)
qed

subsection \<open>What the cells can show\<close>



lemma connect_display [simp]:
  "data_vars (snd (connect a s)) = data_vars s"
  "after_queue (snd (connect a s)) = after_queue s"
  by (auto simp: connect_def open_connection_def Let_def split: attempt.splits)












lemma display_text_850: "display_text ''850''"
proof -
  have "format_value ''rpm'' (Some 850) = ''850''"
    by code_simp
  then show ?thesis
    unfolding display_text_def by metis
qed


subsection \<open>A query that raises\<close>

lemma read_and_print_raises:
  "rep cmd = Raises e \<Longrightarrow> read_and_print rep cmd line = ([Query cmd], Some e)"
  by (simp add: read_and_print_def)

lemma terminal_cycle_raises:
  assumes "k < length terminal_commands"
    and "\<forall>j<k. is_answer (replies env (terminal_commands ! j))"
    and "replies env (terminal_commands ! k) = Raises e"
  shows "terminal_cycle env =
     (take (3 + 2 * k) (full_report env) @ [Query (terminal_commands ! k)], Some e)"
proof -
  from assms(1) have "k < Suc (Suc (Suc (Suc (Suc (Suc (Suc 0))))))"
    by (simp add: terminal_commands_def)
  then consider "k = 0" | "k = Suc 0" | "k = Suc (Suc 0)" | "k = Suc (Suc (Suc 0))"
    | "k = Suc (Suc (Suc (Suc 0)))" | "k = Suc (Suc (Suc (Suc (Suc 0))))"
    | "k = Suc (Suc (Suc (Suc (Suc (Suc 0)))))"
    by (auto simp: less_Suc_eq)
  then show ?thesis
    using assms(2,3)
    by cases
      (simp_all add: terminal_commands_def terminal_cycle_def full_report_def All_less_Suc
        read_and_print_answer read_and_print_raises rule_25)
qed

lemma polling_loop_leaves:
  assumes "\<And>j. j < i \<Longrightarrow> quiet (cycles (i0 + j))"
    and "terminal_cycle (cycles (i0 + i)) = (evs, Some e)"
    and "i < n"
  shows "polling_loop cycles i0 n =
     (concat (map (\<lambda>j. full_report (cycles j)) [i0..<i0 + i]) @ evs, Some e)"
  using assms
proof (induction n arbitrary: i0 i)
  case 0
  then show ?case by simp
next
  case (Suc n)
  show ?case
  proof (cases i)
    case 0
    then show ?thesis
      using Suc.prems(2) by simp
  next
    case (Suc i')
    have first: "quiet (cycles i0)"
      using Suc.prems(1) [of 0] Suc by simp
    have "polling_loop cycles (Suc i0) n =
        (concat (map (\<lambda>j. full_report (cycles j)) [Suc i0..<Suc i0 + i']) @ evs, Some e)"
    proof (rule Suc.IH)
      fix j assume "j < i'"
      then show "quiet (cycles (Suc i0 + j))"
        using Suc.prems(1) [of "Suc j"] Suc by simp
    next
      show "terminal_cycle (cycles (Suc i0 + i')) = (evs, Some e)"
        using Suc.prems(2) Suc by simp
    next
      show "i' < n"
        using Suc.prems(3) Suc by simp
    qed
    moreover have "[i0..<i0 + i] = i0 # [Suc i0..<Suc i0 + i']"
      using Suc by (simp add: upt_conv_Cons)
    ultimately show ?thesis
      using first by (simp add: terminal_cycle_quiet)
  qed
qed

lemma terminal_mode_leaves:
  assumes "snd (try_auto a (snd (try_port a))) = Yields c"
    and "is_connected c"
    and "\<forall>j<i. quiet (cycles j)"
    and "terminal_cycle (cycles i) = (evs, Some e)"
    and "i < n"
  shows "terminal_mode a False cycles n =
     ([Print ''Connecting to OBD-II port...''] @ fst (try_port a)
        @ fst (try_auto a (snd (try_port a))) @ start_report c
        @ concat (map (\<lambda>j. full_report (cycles j)) [0..<i]) @ evs @ leave_loop c e,
      Returned)"
proof -
  have "polling_loop cycles 0 n =
      (concat (map (\<lambda>j. full_report (cycles j)) [0..<0 + i]) @ evs, Some e)"
    using assms(3,4,5) by (intro polling_loop_leaves) simp_all
  then show ?thesis
    using assms(1,2) by (simp add: terminal_mode_def split_def Let_def)
qed

lemma absent_lines:
  "rpm_line None = ''Engine RPM:      No data''"
  "speed_line None = ''Vehicle Speed:   No data''"
  "coolant_line None = ''Coolant Temp:    No data''"
  "throttle_line None = ''Throttle Pos:    No data''"
  "load_line None = ''Engine Load:     No data''"
  "iat_line None = ''Intake Air Temp: No data''"
  "fuel_line None = ''Fuel Level:      No data''"
  by (simp_all add: rpm_line_def speed_line_def coolant_line_def throttle_line_def
      load_line_def iat_line_def fuel_line_def)

lemma read_data_loop_continues:
  assumes "is_running s" and "connection s = Some c" and "link_up (envs i)"
    and "poll_cycle (answers (envs i)) s = (evs, s', None)"
  shows "read_data_loop envs i (Suc n) s =
     (case read_data_loop envs (Suc i) n s' of (evs', s'', st) \<Rightarrow> (evs @ evs', s'', st))"
  using assms by (simp add: split_def Let_def)


lemma poll_cycle_failing:
  "poll_cycle failing_replies connected_gui =
     ([Query RPM, Query SPEED, Print ''Error reading data: read failed'', Sleep 1],
      connected_gui\<lparr>after_queue := [(''rpm'', ''850'')]\<rparr>, None)"
  by code_simp

lemma terminal_mode_failing:
  "terminal_mode good_adapter False (\<lambda>j. failing_cycle) 3 =
     ([Print ''Connecting to OBD-II port...'',
       Print ''Trying /dev/ttyACM0...'', Open_port,
       Print ''Connected via /dev/ttyACM0!'',
       Print ''Connected to: /dev/ttyACM0'',
       Print ''Protocol: ISO 15765-4'',
       Print (newline # ''Starting data read... (Press Ctrl+C to exit)''),
       Sleep 2,
       Clear_screen,
       Print ''=== OBD-II LIVE DATA ==='',
       Print ''-------------------------'',
       Query RPM, Print ''Engine RPM:      850 rpm'',
       Query SPEED,
       Print (newline # ''Error: read failed''),
       Close 1,
       Print ''Connection closed.''], Returned)"
proof -
  have "terminal_cycle failing_cycle =
      (take (3 + 2 * Suc 0) (full_report failing_cycle) @ [Query (terminal_commands ! Suc 0)],
       Some (Exception ''read failed''))"
    by (rule terminal_cycle_raises)
      (simp_all add: terminal_commands_def failing_cycle_def failing_replies_def is_answer_def)
  moreover have "format_f 0 850 = ''850''"
    by code_simp
  ultimately have cycle: "terminal_cycle ((\<lambda>j. failing_cycle) 0) =
      ([Clear_screen, Print ''=== OBD-II LIVE DATA ==='', Print ''-------------------------'',
        Query RPM, Print ''Engine RPM:      850 rpm'', Query SPEED],
       Some (Exception ''read failed''))"
    by (simp add: full_report_def terminal_commands_def failing_cycle_def failing_replies_def
        reading_def rpm_line_def)
  have "terminal_mode good_adapter False (\<lambda>j. failing_cycle) 3 =
      ([Print ''Connecting to OBD-II port...''] @ fst (try_port good_adapter)
         @ fst (try_auto good_adapter (snd (try_port good_adapter))) @ start_report port_conn
         @ concat (map (\<lambda>j. full_report ((\<lambda>j. failing_cycle) j)) [0..<0])
         @ [Clear_screen, Print ''=== OBD-II LIVE DATA ==='', Print ''-------------------------'',
            Query RPM, Print ''Engine RPM:      850 rpm'', Query SPEED]
         @ leave_loop port_conn (Exception ''read failed''),
       Returned)"
    using good_adapter_connects cycle
    by (intro terminal_mode_leaves) (simp_all add: port_conn_def)
  then show ?thesis
    by (simp add: try_auto_def try_port_def good_adapter_def port_conn_def start_report_def
        leave_loop_def)
qed

text \<open>
  C2, as stated, fails in both modes. When the query of the speed raises, the dashboard's
  pass ends there: it has handed over the RPM only, it does not report the speed as
  absent and it queries none of the six parameters after it. Terminal mode leaves its
  loop altogether and closes the session.
\<close>

theorem C2_counterexample:
  "poll_cycle failing_replies connected_gui =
     ([Query RPM, Query SPEED, Print ''Error reading data: read failed'', Sleep 1],
      connected_gui\<lparr>after_queue := [(''rpm'', ''850'')]\<rparr>, None)
   \<and> after_queue connected_gui = []
   \<and> terminal_mode good_adapter False (\<lambda>j. failing_cycle) 3 =
       ([Print ''Connecting to OBD-II port...'',
         Print ''Trying /dev/ttyACM0...'', Open_port,
         Print ''Connected via /dev/ttyACM0!'',
         Print ''Connected to: /dev/ttyACM0'',
         Print ''Protocol: ISO 15765-4'',
         Print (newline # ''Starting data read... (Press Ctrl+C to exit)''),
         Sleep 2,
         Clear_screen,
         Print ''=== OBD-II LIVE DATA ==='',
         Print ''-------------------------'',
         Query RPM, Print ''Engine RPM:      850 rpm'',
         Query SPEED,
         Print (newline # ''Error: read failed''),
         Close 1,
         Print ''Connection closed.''], Returned)"
proof -
  have "after_queue connected_gui = []"
    by code_simp
  then show ?thesis
    using poll_cycle_failing terminal_mode_failing by simp
qed

text \<open>
  C2, amended. In either mode a query that returns no value does not abort the pass: a
  pass in which every query answers queries every parameter of its mode and reports each
  one, an absent value as \<open>No data\<close> in terminal mode and as \<open>N/A\<close> on the dashboard.
  A query that raises an exception aborts the rest of its pass, and the parameters after
  it are not queried. The dashboard keeps what it has handed over before, logs the error,
  sleeps one second and goes on with the next pass. Terminal mode prints the error
  and leaves its loop, closing the session.
\<close>

theorem C2_absent_values_and_raising_queries:
  "(quiet env \<longrightarrow> terminal_cycle env = (full_report env, None))
   \<and> rpm_line None = ''Engine RPM:      No data''
   \<and> speed_line None = ''Vehicle Speed:   No data''
   \<and> coolant_line None = ''Coolant Temp:    No data''
   \<and> throttle_line None = ''Throttle Pos:    No data''
   \<and> load_line None = ''Engine Load:     No data''
   \<and> iat_line None = ''Intake Air Temp: No data''
   \<and> fuel_line None = ''Fuel Level:      No data''
   \<and> format_value param None = ''N/A''
   \<and> (is_running s \<and> connection s = Some c \<and> map fst (data_vars s) = map fst commands
        \<and> list_all (\<lambda>(param, cmd). is_answer (rep cmd)) commands
      \<longrightarrow> poll_cycle rep s =
            (map (Query \<circ> snd) commands @ [Sleep (1 / 2)],
             s\<lparr>after_queue := after_queue s @ published rep commands\<rparr>, None))
   \<and> (is_running s \<and> connection s = Some c \<and> map fst (data_vars s) = map fst commands
        \<and> k < length commands
        \<and> list_all (\<lambda>(param, cmd). is_answer (rep cmd)) (take k commands)
        \<and> rep (snd (commands ! k)) = Raises (Exception msg)
      \<longrightarrow> poll_cycle rep s =
            (map (Query \<circ> snd) (take (Suc k) commands)
               @ [Print (''Error reading data: '' @ msg), Sleep 1],
             s\<lparr>after_queue := after_queue s @ published rep (take k commands)\<rparr>, None))
   \<and> (is_running s \<and> connection s = Some c \<and> link_up (envs i)
        \<and> poll_cycle (answers (envs i)) s = (evs, s', None)
      \<longrightarrow> read_data_loop envs i (Suc n) s =
            (case read_data_loop envs (Suc i) n s' of
               (evs', s'', st) \<Rightarrow> (evs @ evs', s'', st)))
   \<and> (k < length terminal_commands
        \<and> (\<forall>j<k. is_answer (replies env (terminal_commands ! j)))
        \<and> replies env (terminal_commands ! k) = Raises e
      \<longrightarrow> terminal_cycle env =
            (take (3 + 2 * k) (full_report env) @ [Query (terminal_commands ! k)], Some e))
   \<and> (snd (try_auto a (snd (try_port a))) = Yields c' \<and> is_connected c'
        \<and> (\<forall>j<i. quiet (cycles j))
        \<and> terminal_cycle (cycles i) = (tevs, Some e) \<and> i < n
      \<longrightarrow> terminal_mode a False cycles n =
            ([Print ''Connecting to OBD-II port...''] @ fst (try_port a)
               @ fst (try_auto a (snd (try_port a))) @ start_report c'
               @ concat (map (\<lambda>j. full_report (cycles j)) [0..<i]) @ tevs @ leave_loop c' e,
             Returned))"
proof (intro conjI impI; (elim conjE)?)
  show "format_value param None = ''N/A''"
    by (simp add: format_value_def)
next
  assume "quiet env"
  then show "terminal_cycle env = (full_report env, None)"
    by (rule terminal_cycle_quiet)
next
  assume "is_running s" "connection s = Some c" "map fst (data_vars s) = map fst commands"
    "list_all (\<lambda>(param, cmd). is_answer (rep cmd)) commands"
  then show "poll_cycle rep s =
      (map (Query \<circ> snd) commands @ [Sleep (1 / 2)],
       s\<lparr>after_queue := after_queue s @ published rep commands\<rparr>, None)"
    by (rule poll_cycle_answers)
next
  assume "is_running s" "connection s = Some c" "map fst (data_vars s) = map fst commands"
    "k < length commands" "list_all (\<lambda>(param, cmd). is_answer (rep cmd)) (take k commands)"
    "rep (snd (commands ! k)) = Raises (Exception msg)"
  then show "poll_cycle rep s =
      (map (Query \<circ> snd) (take (Suc k) commands)
         @ [Print (''Error reading data: '' @ msg), Sleep 1],
       s\<lparr>after_queue := after_queue s @ published rep (take k commands)\<rparr>, None)"
    by (rule poll_cycle_raises)
next
  assume "is_running s" "connection s = Some c" "link_up (envs i)"
    "poll_cycle (answers (envs i)) s = (evs, s', None)"
  then show "read_data_loop envs i (Suc n) s =
      (case read_data_loop envs (Suc i) n s' of (evs', s'', st) \<Rightarrow> (evs @ evs', s'', st))"
    by (rule read_data_loop_continues)
next
  assume "k < length terminal_commands"
    "\<forall>j<k. is_answer (replies env (terminal_commands ! j))"
    "replies env (terminal_commands ! k) = Raises e"
  then show "terminal_cycle env =
      (take (3 + 2 * k) (full_report env) @ [Query (terminal_commands ! k)], Some e)"
    by (rule terminal_cycle_raises)
next
  assume "snd (try_auto a (snd (try_port a))) = Yields c'" "is_connected c'"
    "\<forall>j<i. quiet (cycles j)" "terminal_cycle (cycles i) = (tevs, Some e)" "i < n"
  then show "terminal_mode a False cycles n =
      ([Print ''Connecting to OBD-II port...''] @ fst (try_port a)
         @ fst (try_auto a (snd (try_port a))) @ start_report c'
         @ concat (map (\<lambda>j. full_report (cycles j)) [0..<i]) @ tevs @ leave_loop c' e,
       Returned)"
    by (rule terminal_mode_leaves)
qed (simp_all add: absent_lines)

lemma connected_gui_fields:
  "is_running connected_gui"
  "connection connected_gui = Some port_conn"
  "map fst (data_vars connected_gui) = map fst commands"
  "after_queue connected_gui = []"
  by code_simp+

lemma failing_facts:
  "Suc 0 < length commands"
  "list_all (\<lambda>(param, cmd). is_answer (failing_replies cmd)) (take (Suc 0) commands)"
  "failing_replies (snd (commands ! Suc 0)) = Raises (Exception ''read failed'')"
  "map (Query \<circ> snd) (take (Suc (Suc 0)) commands) = [Query RPM, Query SPEED]"
  "published failing_replies (take (Suc 0) commands) = [(''rpm'', ''850'')]"
  by code_simp+

theorem C2_absent_values_and_raising_queries_witness:
  "is_running connected_gui
   \<and> connection connected_gui = Some port_conn
   \<and> map fst (data_vars connected_gui) = map fst commands
   \<and> Suc 0 < length commands
   \<and> list_all (\<lambda>(param, cmd). is_answer (failing_replies cmd)) (take (Suc 0) commands)
   \<and> failing_replies (snd (commands ! Suc 0)) = Raises (Exception ''read failed'')
   \<and> poll_cycle failing_replies connected_gui =
       ([Query RPM, Query SPEED, Print ''Error reading data: read failed'', Sleep 1],
        connected_gui\<lparr>after_queue := [(''rpm'', ''850'')]\<rparr>, None)
   \<and> quiet scenario_cycle
   \<and> terminal_cycle scenario_cycle = (full_report scenario_cycle, None)"
proof -
  note inst = C2_absent_values_and_raising_queries
    [where s = connected_gui and c = port_conn and rep = failing_replies and k = "Suc 0"
      and msg = "''read failed''" and env = scenario_cycle]
  have "poll_cycle failing_replies connected_gui =
      (map (Query \<circ> snd) (take (Suc (Suc 0)) commands)
         @ [Print (''Error reading data: '' @ ''read failed''), Sleep 1],
       connected_gui\<lparr>after_queue :=
         after_queue connected_gui @ published failing_replies (take (Suc 0) commands)\<rparr>, None)"
    using inst connected_gui_fields failing_facts(1,2,3) by blast
  moreover have "terminal_cycle scenario_cycle = (full_report scenario_cycle, None)"
    using inst quiet_scenario_cycle by blast
  ultimately show ?thesis
    using connected_gui_fields failing_facts quiet_scenario_cycle by simp
qed

end
